theory Spec2Isabelle
  imports Complex_Main
begin

section \<open>JavaScript values\<close>

text \<open>
  The router takes \<^verbatim>\<open>input: any\<close>, so routed inputs are arbitrary JavaScript data.
  Plain objects are association lists from property names to values (own data
  properties, keys unique). A finite number is the real it denotes; NaN and the two
  infinities (\<open>JInfinity True\<close> the positive one) stand apart. Strings are byte strings holding the UTF-8 encoding of the
  text, so \<open>length\<close> is the UTF-8 byte length.
\<close>

datatype jsval =
    JUndefined
  | JNull
  | JBool bool
  | JNum real
  | JNaN
  | JInfinity bool
  | JStr string
  | JArr "jsval list"
  | JObj "(string \<times> jsval) list"

text \<open>ToBoolean: what \<^verbatim>\<open>!v\<close>, \<^verbatim>\<open>v && ...\<close> and \<^verbatim>\<open>if (v)\<close> test.\<close>

fun js_truthy :: "jsval \<Rightarrow> bool" where
  "js_truthy JUndefined = False"
| "js_truthy JNull = False"
| "js_truthy (JBool b) = b"
| "js_truthy (JNum n) = (n \<noteq> 0)"
| "js_truthy JNaN = False"
| "js_truthy (JInfinity pos) = True"
| "js_truthy (JStr s) = (s \<noteq> [])"
| "js_truthy (JArr xs) = True"
| "js_truthy (JObj kvs) = True"

text \<open>
  Property read \<^verbatim>\<open>v.k\<close> on a value that is neither null nor undefined. Primitives and
  arrays have none of the property names this code reads (\<^verbatim>\<open>type\<close>,
  \<^verbatim>\<open>correlationid\<close>), so only plain objects answer.
\<close>

fun get_prop :: "jsval \<Rightarrow> string \<Rightarrow> jsval" where
  "get_prop (JObj kvs) k = (case map_of kvs k of Some v \<Rightarrow> v | None \<Rightarrow> JUndefined)"
| "get_prop v k = JUndefined"

text \<open>Optional chaining \<^verbatim>\<open>v?.k\<close>: undefined when \<open>v\<close> is null or undefined.\<close>

fun opt_prop :: "jsval \<Rightarrow> string \<Rightarrow> jsval" where
  "opt_prop JUndefined k = JUndefined"
| "opt_prop JNull k = JUndefined"
| "opt_prop v k = get_prop v k"

text \<open>Nullish coalescing \<^verbatim>\<open>a ?? b\<close>.\<close>

fun nullish :: "jsval \<Rightarrow> jsval \<Rightarrow> jsval" where
  "nullish JUndefined d = d"
| "nullish JNull d = d"
| "nullish v d = v"

fun join_with :: "string \<Rightarrow> string list \<Rightarrow> string" where
  "join_with sep [] = []"
| "join_with sep [s] = s"
| "join_with sep (s # t # ss) = s @ sep @ join_with sep (t # ss)"

text \<open>
  ToString, as a template literal \<^verbatim>\<open>`${v}`\<close> and a computed property key apply it.
  Printing a finite number is the engine's \<^verbatim>\<open>Number::toString\<close>, taken as the
  parameter \<open>nts\<close>.
\<close>

fun ToString :: "(real \<Rightarrow> string) \<Rightarrow> jsval \<Rightarrow> string" where
  "ToString nts JUndefined = ''undefined''"
| "ToString nts JNull = ''null''"
| "ToString nts (JBool b) = (if b then ''true'' else ''false'')"
| "ToString nts (JNum n) = nts n"
| "ToString nts JNaN = ''NaN''"
| "ToString nts (JInfinity pos) = (if pos then ''Infinity'' else ''-Infinity'')"
| "ToString nts (JStr s) = s"
| "ToString nts (JArr xs) =
     join_with '','' (map (\<lambda>v. if v = JUndefined \<or> v = JNull then [] else ToString nts v) xs)"
| "ToString nts (JObj kvs) = ''[object Object]''"

section \<open>Errors and the exception taxonomy\<close>

datatype error_class =
    PlainError
  | TypeError
  | ZodError
  | InvalidInputExceptionC
  | NotFoundExceptionC
  | GenericExceptionC

text \<open>
  A stack trace is either the text the engine captured when the named error was
  constructed (never empty), or a given text.
\<close>

datatype js_stack = Captured string | StackText string

fun stack_truthy :: "js_stack option \<Rightarrow> bool" where
  "stack_truthy None = False"
| "stack_truthy (Some (Captured nm)) = True"
| "stack_truthy (Some (StackText s)) = (s \<noteq> [])"

text \<open>
  One record for every \<^verbatim>\<open>Error\<close> instance: \<open>details\<close> and \<open>statusCode\<close> are the
  fields class \<^verbatim>\<open>Exception\<close> adds, \<open>issues\<close> is the issue array of a \<^verbatim>\<open>ZodError\<close>.
\<close>

record js_error =
  cls :: error_class
  name :: string
  message :: string
  stack :: "js_stack option"
  details :: "(string \<times> jsval) list option"
  statusCode :: "nat option"
  issues :: "jsval list option"

text \<open>Anything can be thrown; \<^verbatim>\<open>error instanceof Error\<close> tells the two apart.\<close>

datatype js_thrown = ThrownError js_error | ThrownValue jsval

definition new_Error :: "string \<Rightarrow> js_error" where
  "new_Error msg =
     \<lparr>cls = PlainError, name = ''Error'', message = msg, stack = Some (Captured ''Error''),
      details = None, statusCode = None, issues = None\<rparr>"

text \<open>
  The constructor of class \<^verbatim>\<open>Exception\<close>. \<^verbatim>\<open>if (details)\<close> holds for every object;
  \<^verbatim>\<open>if (statusCode)\<close> fails for 0.
\<close>

definition Exception ::
  "error_class \<Rightarrow> string \<Rightarrow> string \<Rightarrow> (string \<times> jsval) list option \<Rightarrow> nat option \<Rightarrow> js_error"
where
  "Exception c nm msg dets code =
     \<lparr>cls = c, name = nm, message = msg, stack = Some (Captured nm),
      details = dets,
      statusCode = (case code of None \<Rightarrow> None | Some n \<Rightarrow> if n = 0 then None else Some n),
      issues = None\<rparr>"

definition fromError :: "js_error \<Rightarrow> js_error \<Rightarrow> js_error" where
  "fromError this error = this\<lparr>message := message error, stack := stack error\<rparr>"

definition InvalidInputException ::
  "string option \<Rightarrow> (string \<times> jsval) list option \<Rightarrow> js_error" where
  "InvalidInputException msg dets =
     Exception InvalidInputExceptionC ''INVALID_INPUT''
       (case msg of None \<Rightarrow> ''Invalid input'' | Some m \<Rightarrow> m) dets (Some 400)"

definition fromZodError :: "js_error \<Rightarrow> js_error \<Rightarrow> js_error" where
  "fromZodError this error =
     (let this1 = (if stack_truthy (stack error) then this\<lparr>stack := stack error\<rparr> else this)
      in case issues error of
           Some iss \<Rightarrow> this1\<lparr>details := Some [(''issues'', JArr iss)]\<rparr>
         | None \<Rightarrow> this1)"

definition NotFoundException ::
  "string option \<Rightarrow> (string \<times> jsval) list option \<Rightarrow> js_error" where
  "NotFoundException msg dets =
     Exception NotFoundExceptionC ''NOT_FOUND''
       (case msg of None \<Rightarrow> ''Not found'' | Some m \<Rightarrow> m) dets (Some 404)"

definition GenericException ::
  "string option \<Rightarrow> (string \<times> jsval) list option \<Rightarrow> js_error" where
  "GenericException msg dets =
     Exception GenericExceptionC ''INTERNAL_SERVER_ERROR''
       (case msg of None \<Rightarrow> ''Internal server error'' | Some m \<Rightarrow> m) dets (Some 500)"

section \<open>Arithmetic on numbers\<close>

text \<open>
  A JavaScript number is an IEEE 754 binary64 value: a finite one is the real it
  denotes, and the two zeros are not told apart. Every operation computes the exact
  result and rounds it to the nearest double, ties to the even significand.
\<close>

datatype float64 = Finite real | PosInf | NegInf | NaN

definition round_half_even :: "real \<Rightarrow> int" where
  "round_half_even t =
     (let f = \<lfloor>t\<rfloor> in
      if t - of_int f < 1 / 2 then f
      else if 1 / 2 < t - of_int f then f + 1
      else if even f then f else f + 1)"

text \<open>
  The distance between neighbouring doubles at the magnitude \<open>x > 0\<close>: 52 binary
  places below the leading bit, and never below the subnormal step.
\<close>

definition quantum :: "real \<Rightarrow> real" where
  "quantum x = 2 powi (max (\<lfloor>log 2 x\<rfloor> - 52) (- 1074))"

definition round_magnitude :: "real \<Rightarrow> real" where
  "round_magnitude x =
     (if x = 0 then 0 else of_int (round_half_even (x / quantum x)) * quantum x)"

text \<open>A rounded magnitude of \<open>2^1024\<close> or more overflows to an infinity.\<close>

definition round64 :: "real \<Rightarrow> float64" where
  "round64 x =
     (let r = round_magnitude \<bar>x\<bar> in
      if 2 ^ 1024 \<le> r then (if x < 0 then NegInf else PosInf)
      else Finite (if x < 0 then - r else r))"

fun fmul :: "float64 \<Rightarrow> float64 \<Rightarrow> float64" where
  "fmul NaN b = NaN"
| "fmul a NaN = NaN"
| "fmul (Finite x) (Finite y) = round64 (x * y)"
| "fmul (Finite x) PosInf = (if x = 0 then NaN else if 0 < x then PosInf else NegInf)"
| "fmul (Finite x) NegInf = (if x = 0 then NaN else if 0 < x then NegInf else PosInf)"
| "fmul PosInf (Finite y) = (if y = 0 then NaN else if 0 < y then PosInf else NegInf)"
| "fmul NegInf (Finite y) = (if y = 0 then NaN else if 0 < y then NegInf else PosInf)"
| "fmul PosInf PosInf = PosInf"
| "fmul PosInf NegInf = NegInf"
| "fmul NegInf PosInf = NegInf"
| "fmul NegInf NegInf = PosInf"

fun fadd :: "float64 \<Rightarrow> float64 \<Rightarrow> float64" where
  "fadd NaN b = NaN"
| "fadd a NaN = NaN"
| "fadd (Finite x) (Finite y) = round64 (x + y)"
| "fadd (Finite x) PosInf = PosInf"
| "fadd (Finite x) NegInf = NegInf"
| "fadd PosInf (Finite y) = PosInf"
| "fadd NegInf (Finite y) = NegInf"
| "fadd PosInf PosInf = PosInf"
| "fadd PosInf NegInf = NaN"
| "fadd NegInf PosInf = NaN"
| "fadd NegInf NegInf = NegInf"

text \<open>\<^verbatim>\<open>Math.min\<close> of two numbers: NaN when either is.\<close>

fun Math_min :: "float64 \<Rightarrow> float64 \<Rightarrow> float64" where
  "Math_min NaN b = NaN"
| "Math_min a NaN = NaN"
| "Math_min NegInf b = NegInf"
| "Math_min a NegInf = NegInf"
| "Math_min PosInf b = b"
| "Math_min a PosInf = a"
| "Math_min (Finite x) (Finite y) = Finite (min x y)"

text \<open>
  \<^verbatim>\<open>Math.pow(2, k)\<close> for an integer \<open>k\<close>: the power of two itself where it is a
  double, infinity from \<open>2^1024\<close> on and zero below the smallest subnormal.
\<close>

definition Math_pow2 :: "int \<Rightarrow> float64" where
  "Math_pow2 k =
     (if 1024 \<le> k then PosInf else if k < - 1074 then Finite 0 else Finite (2 powi k))"

definition num_to_js :: "float64 \<Rightarrow> jsval" where
  "num_to_js a =
     (case a of Finite x \<Rightarrow> JNum x | PosInf \<Rightarrow> JInfinity True | NegInf \<Rightarrow> JInfinity False
      | NaN \<Rightarrow> JNaN)"

section \<open>Event bus: retry delay\<close>

text \<open>
  \<^verbatim>\<open>_calculateRetryDelay\<close>. \<open>u\<close> is the number \<^verbatim>\<open>Math.random()\<close> returns, read only
  when \<open>useJitter\<close> holds; the literal \<^verbatim>\<open>0.1\<close> is the double nearest to one tenth.
\<close>

definition calculateRetryDelay :: "nat \<Rightarrow> float64 \<Rightarrow> float64 \<Rightarrow> bool \<Rightarrow> real \<Rightarrow> float64" where
  "calculateRetryDelay attempt baseDelay maxDelay useJitter u =
     (let delay = Math_min (fmul baseDelay (Math_pow2 (int attempt - 1))) maxDelay;
          jitter = (if useJitter then fmul (fmul (Finite u) delay) (round64 (1 / 10))
                    else Finite 0)
      in fadd delay jitter)"


section \<open>Messages\<close>

text \<open>
  The CloudEvents message of \<^verbatim>\<open>command.ts\<close>, \<^verbatim>\<open>query.ts\<close> and \<^verbatim>\<open>event.ts\<close>. The three
  types differ in \<open>subject\<close> only: optional on a command, absent on a query, required
  on an event.
\<close>

record Message =
  specversion :: string
  msg_id :: string
  correlationid :: string
  time :: string
  source :: string
  type :: string
  subject :: "string option"
  data :: jsval
  datacontenttype :: "string option"
  dataschema :: "string option"

section \<open>Effects\<close>

text \<open>
  What the code does to the outside is written to a trace, in the order it happens:
  tracing and metrics calls, logger calls, and for the event bus the invocations of a
  subscription's handler and error callback and the timers it waits on. A histogram
  value that is a wall-clock duration is recorded as \<open>None\<close>.
\<close>

datatype span_kind = INTERNAL | PRODUCER | CONSUMER

type_synonym attrs = "(string \<times> jsval) list"

datatype effect =
    StartActiveSpan string span_kind attrs
  | SpanSetStatusError string
  | SpanRecordException js_error
  | SpanAddEvent string attrs
  | SpanEnd
  | CounterAdd string nat attrs
  | HistogramRecord string "nat option" attrs
  | LoggerCall string string string "js_error option"
  | HandlerCall Message
  | OnErrorCall js_error Message
  | SetTimeout float64

text \<open>
  The machine a call runs on: the application state \<open>world\<close> that handlers and
  callbacks read and change, the values \<^verbatim>\<open>Math.random()\<close> will return next, and the
  trace so far.
\<close>

record 'w machine =
  world :: 'w
  randoms :: "nat \<Rightarrow> real"
  trace :: "effect list"

definition perform :: "effect \<Rightarrow> 'w machine \<Rightarrow> 'w machine" where
  "perform e m = m\<lparr>trace := trace m @ [e]\<rparr>"

definition error_message_of :: "js_thrown \<Rightarrow> string" where
  "error_message_of t = (case t of ThrownError e \<Rightarrow> message e | ThrownValue v \<Rightarrow> ''Unknown error'')"

definition error_instance_of :: "js_thrown \<Rightarrow> js_error" where
  "error_instance_of t = (case t of ThrownError e \<Rightarrow> e | ThrownValue v \<Rightarrow> new_Error ''Unknown error'')"

section \<open>MessageRouter\<close>

text \<open>
  A Zod schema is the function \<^verbatim>\<open>safeParse\<close> computes: the parsed data, or a
  \<^verbatim>\<open>ZodError\<close>. A handler runs on the world and resolves to a value or rejects. The
  logging hooks \<^verbatim>\<open>logInput\<close> and \<^verbatim>\<open>logOutput\<close> are observers that return.
\<close>

type_synonym ZodSchema = "jsval \<Rightarrow> js_error + jsval"

type_synonym 'w MessageHandler = "jsval \<Rightarrow> 'w \<Rightarrow> (js_thrown + jsval) \<times> 'w"

record 'w HandlerRegistration =
  handler :: "'w MessageHandler"
  schema :: ZodSchema

record 'w MessageRouter =
  handlers :: "string \<rightharpoonup> 'w HandlerRegistration"
  router_name :: string
  logInput :: "(jsval \<Rightarrow> 'w \<Rightarrow> 'w) option"
  logOutput :: "(jsval \<Rightarrow> 'w \<Rightarrow> 'w) option"

record 'w MessageRouterOptions =
  opt_name :: "string option"
  opt_logInput :: "(jsval \<Rightarrow> 'w \<Rightarrow> 'w) option"
  opt_logOutput :: "(jsval \<Rightarrow> 'w \<Rightarrow> 'w) option"

definition new_MessageRouter :: "'w MessageRouterOptions option \<Rightarrow> 'w MessageRouter" where
  "new_MessageRouter options =
     \<lparr>handlers = Map.empty,
      router_name = (case options of None \<Rightarrow> ''default''
                     | Some opts \<Rightarrow> (case opt_name opts of None \<Rightarrow> ''default'' | Some n \<Rightarrow> n)),
      logInput = (case options of None \<Rightarrow> None | Some opts \<Rightarrow> opt_logInput opts),
      logOutput = (case options of None \<Rightarrow> None | Some opts \<Rightarrow> opt_logOutput opts)\<rparr>"

definition register ::
  "string \<Rightarrow> 'w MessageHandler \<Rightarrow> ZodSchema \<Rightarrow> 'w MessageRouter \<Rightarrow> 'w machine
     \<Rightarrow> 'w MessageRouter \<times> 'w machine" where
  "register messageType h s r m =
     (r\<lparr>handlers := (handlers r)(messageType \<mapsto> \<lparr>handler = h, schema = s\<rparr>)\<rparr>,
      perform (LoggerCall ''debug'' ''Nimbus'' (''Registered handler for: '' @ messageType) None) m)"

text \<open>
  \<^verbatim>\<open>Map.prototype.get\<close> on a map whose keys are strings: a key that is not a string
  equals none of them.
\<close>

definition Map_get :: "(string \<rightharpoonup> 'a) \<Rightarrow> jsval \<Rightarrow> 'a option" where
  "Map_get mp k = (case k of JStr s \<Rightarrow> mp s | _ \<Rightarrow> None)"

definition run_hook :: "(jsval \<Rightarrow> 'w \<Rightarrow> 'w) option \<Rightarrow> jsval \<Rightarrow> 'w machine \<Rightarrow> 'w machine" where
  "run_hook hook v m = (case hook of None \<Rightarrow> m | Some f \<Rightarrow> m\<lparr>world := f v (world m)\<rparr>)"

text \<open>The \<^verbatim>\<open>try\<close> block of \<^verbatim>\<open>route\<close>.\<close>

definition route_try ::
  "(real \<Rightarrow> string) \<Rightarrow> 'w MessageRouter \<Rightarrow> jsval \<Rightarrow> 'w machine
     \<Rightarrow> (js_thrown + jsval) \<times> 'w machine" where
  "route_try nts r input m =
     (let m1 = run_hook (logInput r) input m in
      if \<not> js_truthy (opt_prop input ''type'') then
        (Inl (ThrownError
           (InvalidInputException (Some ''The provided input has no type attribute'') None)), m1)
      else
        case Map_get (handlers r) (get_prop input ''type'') of
          None \<Rightarrow>
            (Inl (ThrownError
               (NotFoundException (Some ''Message handler not found'')
                  (Some [(''reason'',
                     JStr (''Could not find a handler for message type: '' @ [CHR 0x22]
                           @ ToString nts (get_prop input ''type'') @ [CHR 0x22]))]))), m1)
        | Some registration \<Rightarrow>
            (case schema registration input of
               Inl error \<Rightarrow>
                 (Inl (ThrownError
                    (fromZodError
                       (InvalidInputException (Some ''The provided input is invalid'') None)
                       error)), m1)
             | Inr validated \<Rightarrow>
                 (case handler registration validated (world m1) of
                    (Inl rejected, w) \<Rightarrow> (Inl rejected, m1\<lparr>world := w\<rparr>)
                  | (Inr result, w) \<Rightarrow>
                      (Inr result,
                       perform (HistogramRecord ''router_routing_duration_seconds'' None
                               [(''router_name'', JStr (router_name r)),
                                (''message_type'', get_prop input ''type'')])
                         (perform (CounterAdd ''router_messages_routed_total'' 1
                                  [(''router_name'', JStr (router_name r)),
                                   (''message_type'', get_prop input ''type''),
                                   (''status'', JStr ''success'')])
                            (run_hook (logOutput r) result (m1\<lparr>world := w\<rparr>)))))))"

text \<open>
  \<^verbatim>\<open>route\<close>: the span around the \<^verbatim>\<open>try\<close> block, its \<^verbatim>\<open>catch\<close> (error metrics, span
  status, the error thrown again unchanged) and its \<^verbatim>\<open>finally\<close>. \<open>Inl\<close> is a rejected
  promise.
\<close>

definition route ::
  "(real \<Rightarrow> string) \<Rightarrow> 'w MessageRouter \<Rightarrow> jsval \<Rightarrow> 'w machine
     \<Rightarrow> (js_thrown + jsval) \<times> 'w machine" where
  "route nts r input m =
     (let messageType = nullish (opt_prop input ''type'') (JStr ''unknown'');
          m0 = perform (StartActiveSpan ''router.route'' INTERNAL
                 ([(''messaging.system'', JStr ''nimbusRouter''),
                   (''messaging.router_name'', JStr (router_name r)),
                   (''messaging.operation'', JStr ''route''),
                   (''messaging.destination'', messageType)]
                  @ (if js_truthy (opt_prop input ''correlationid'')
                     then [(''correlation_id'', get_prop input ''correlationid'')] else []))) m
      in case route_try nts r input m0 of
           (Inr result, m1) \<Rightarrow> (Inr result, perform SpanEnd m1)
         | (Inl error, m1) \<Rightarrow>
             (Inl error,
              perform SpanEnd
                (perform (SpanRecordException (error_instance_of error))
                   (perform (SpanSetStatusError (error_message_of error))
                      (perform (HistogramRecord ''router_routing_duration_seconds'' None
                               [(''router_name'', JStr (router_name r)),
                                (''message_type'', messageType)])
                         (perform (CounterAdd ''router_messages_routed_total'' 1
                                  [(''router_name'', JStr (router_name r)),
                                   (''message_type'', messageType),
                                   (''status'', JStr ''error'')]) m1))))))"


section \<open>createRouter\<close>

text \<open>
  The router function \<^verbatim>\<open>createRouter\<close> returns. Its handler map is an object literal, so
  \<^verbatim>\<open>handlerMap[key]\<close> also finds what every object inherits from
  \<^verbatim>\<open>Object.prototype\<close>: a truthy value with neither a \<^verbatim>\<open>handler\<close> nor an
  \<^verbatim>\<open>inputType\<close>.
\<close>

datatype 'a lookup = Own 'a | Inherited | Absent

definition Object_prototype_keys :: "string list" where
  "Object_prototype_keys =
     [''constructor'', ''__proto__'', ''hasOwnProperty'', ''isPrototypeOf'',
      ''propertyIsEnumerable'', ''toLocaleString'', ''toString'', ''valueOf'',
      ''__defineGetter__'', ''__defineSetter__'', ''__lookupGetter__'', ''__lookupSetter__'']"

definition object_lookup :: "(string \<rightharpoonup> 'a) \<Rightarrow> string \<Rightarrow> 'a lookup" where
  "object_lookup obj k =
     (case obj k of Some v \<Rightarrow> Own v
      | None \<Rightarrow> if k \<in> set Object_prototype_keys then Inherited else Absent)"

text \<open>
  A route handler throws where it is called, or returns a promise; the router returns
  that promise as it is.
\<close>

datatype handler_outcome = Throws js_error | Resolves jsval | Rejects js_thrown

record 'w RouteHandlerEntry =
  route_handler :: "jsval \<Rightarrow> 'w \<Rightarrow> handler_outcome \<times> 'w"
  inputType :: ZodSchema

definition new_TypeError :: "string \<Rightarrow> js_error" where
  "new_TypeError msg =
     \<lparr>cls = TypeError, name = ''TypeError'', message = msg,
      stack = Some (Captured ''TypeError''), details = None, statusCode = None, issues = None\<rparr>"

text \<open>The \<^verbatim>\<open>catch\<close> clause of the router function.\<close>

definition router_catch :: "js_error \<Rightarrow> js_error" where
  "router_catch error =
     (if cls error = ZodError then fromZodError (InvalidInputException None None) error
      else fromError (GenericException None None) error)"

definition createRouter ::
  "(real \<Rightarrow> string) \<Rightarrow> (string \<rightharpoonup> 'w RouteHandlerEntry) \<Rightarrow> (jsval \<Rightarrow> 'w \<Rightarrow> 'w) option
     \<Rightarrow> jsval \<Rightarrow> 'w machine \<Rightarrow> (js_thrown + jsval) \<times> 'w machine" where
  "createRouter nts handlerMap inputLogFunc input m =
     (let m1 = run_hook inputLogFunc input m in
      if input = JUndefined \<or> input = JNull then
        (Inl (ThrownError (new_TypeError
           (''Cannot read properties of '' @ ToString nts input @ '' (reading 'type')''))), m1)
      else
        case object_lookup handlerMap (ToString nts (get_prop input ''type'')) of
          Absent \<Rightarrow>
            (Inl (ThrownError
               (NotFoundException (Some ''Route handler not found'')
                  (Some [(''reason'',
                     JStr (''Could not find a handler for '' @ [CHR 0x22]
                           @ ToString nts (get_prop input ''type'') @ [CHR 0x22]))]))), m1)
        | Inherited \<Rightarrow>
            (Inl (ThrownError (router_catch (new_TypeError
               ''Cannot read properties of undefined (reading 'parse')''))), m1)
        | Own entry \<Rightarrow>
            (case inputType entry input of
               Inl error \<Rightarrow> (Inl (ThrownError (router_catch error)), m1)
             | Inr validInput \<Rightarrow>
                 (case route_handler entry validInput (world m1) of
                    (Throws error, w) \<Rightarrow>
                      (Inl (ThrownError (router_catch error)), m1\<lparr>world := w\<rparr>)
                  | (Resolves result, w) \<Rightarrow> (Inr result, m1\<lparr>world := w\<rparr>)
                  | (Rejects rejected, w) \<Rightarrow> (Inl rejected, m1\<lparr>world := w\<rparr>))))"


section \<open>NimbusEventBus\<close>

text \<open>
  An event handler runs on the world and resolves (\<open>None\<close>) or fails with what it
  threw. The callbacks \<^verbatim>\<open>onError\<close> and \<^verbatim>\<open>logPublish\<close> are observers that return.
  \<^verbatim>\<open>maxRetries\<close> is a count, a natural number as the retry policy declares it; the
  delays are numbers.
\<close>

type_synonym 'w EventHandler = "Message \<Rightarrow> 'w \<Rightarrow> js_thrown option \<times> 'w"

record 'w NimbusEventBusOptions =
  o_name :: "string option"
  o_maxRetries :: "nat option"
  o_baseDelay :: "float64 option"
  o_maxDelay :: "float64 option"
  o_useJitter :: "bool option"
  o_logPublish :: "(Message \<Rightarrow> 'w \<Rightarrow> 'w) option"

record 'w SubscribeEventInput =
  in_type :: string
  in_handler :: "'w EventHandler"
  in_onError :: "(js_error \<Rightarrow> Message \<Rightarrow> 'w \<Rightarrow> 'w) option"
  in_options :: "'w NimbusEventBusOptions option"

text \<open>
  The listener \<^verbatim>\<open>handleEvent\<close> that \<^verbatim>\<open>subscribeEvent\<close> registers, as the values its
  closure holds.
\<close>

record 'w Listener =
  sub_handler :: "'w EventHandler"
  sub_onError :: "(js_error \<Rightarrow> Message \<Rightarrow> 'w \<Rightarrow> 'w) option"
  sub_maxRetries :: nat
  sub_baseDelay :: float64
  sub_maxDelay :: float64
  sub_useJitter :: bool

record 'w NimbusEventBus =
  eventEmitter :: "string \<Rightarrow> 'w Listener list"
  bus_name :: string
  maxRetries :: nat
  baseDelay :: float64
  maxDelay :: float64
  useJitter :: bool
  logPublish :: "(Message \<Rightarrow> 'w \<Rightarrow> 'w) option"

definition option_or :: "'a option \<Rightarrow> 'a \<Rightarrow> 'a" where
  "option_or v d = (case v of None \<Rightarrow> d | Some x \<Rightarrow> x)"

definition new_NimbusEventBus :: "'w NimbusEventBusOptions option \<Rightarrow> 'w NimbusEventBus" where
  "new_NimbusEventBus options =
     \<lparr>eventEmitter = (\<lambda>t. []),
      bus_name = option_or (Option.bind options o_name) ''default'',
      maxRetries = option_or (Option.bind options o_maxRetries) 2,
      baseDelay = option_or (Option.bind options o_baseDelay) (Finite 1000),
      maxDelay = option_or (Option.bind options o_maxDelay) (Finite 30000),
      useJitter = option_or (Option.bind options o_useJitter) True,
      logPublish = Option.bind options o_logPublish\<rparr>"

definition metricLabels :: "string \<Rightarrow> Message \<Rightarrow> attrs" where
  "metricLabels nm event = [(''eventbus_name'', JStr nm), (''event_type'', JStr (type event))]"

definition span_attributes :: "string \<Rightarrow> string \<Rightarrow> Message \<Rightarrow> attrs" where
  "span_attributes nm operation event =
     [(''messaging.system'', JStr ''nimbusEventBus''),
      (''messaging.eventbus_name'', JStr nm),
      (''messaging.operation'', JStr operation),
      (''messaging.destination'', JStr (type event)),
      (''cloudevents.event_id'', JStr (msg_id event)),
      (''cloudevents.event_source'', JStr (source event))]
     @ (if correlationid event \<noteq> [] then [(''correlation_id'', JStr (correlationid event))]
        else [])"

definition recordDeliveryMetrics :: "attrs \<Rightarrow> string \<Rightarrow> 'w machine \<Rightarrow> 'w machine" where
  "recordDeliveryMetrics labels status m =
     perform (HistogramRecord ''eventbus_event_handling_duration_seconds'' None labels)
       (perform (CounterAdd ''eventbus_events_delivered_total'' 1
                   (labels @ [(''status'', JStr status)])) m)"

text \<open>\<^verbatim>\<open>_handleFinalFailure\<close> never returns: the result is the exception it throws.\<close>

definition handleFinalFailure ::
  "js_thrown \<Rightarrow> Message \<Rightarrow> attrs \<Rightarrow> nat \<Rightarrow> float64 \<Rightarrow> float64 \<Rightarrow> 'w machine
     \<Rightarrow> js_error \<times> 'w machine" where
  "handleFinalFailure error event labels maxRetries' baseDelay' maxDelay' m =
     (let m1 = recordDeliveryMetrics labels ''error'' m;
          m2 = perform (SpanSetStatusError (error_message_of error)) m1;
          m3 = perform (SpanRecordException (error_instance_of error)) m2;
          m4 = perform SpanEnd m3;
          exception = GenericException
            (Some (''Failed to handle event: '' @ type event @ '' from '' @ source event))
            (Some [(''maxRetries'', JNum (real maxRetries')),
                   (''baseDelay'', num_to_js baseDelay'),
                   (''maxDelay'', num_to_js maxDelay')])
      in (case error of
            ThrownError e \<Rightarrow>
              if stack_truthy (stack e) then exception\<lparr>stack := stack e\<rparr> else exception
          | ThrownValue v \<Rightarrow> exception,
          m4))"

definition Math_random :: "'w machine \<Rightarrow> real \<times> 'w machine" where
  "Math_random m = (randoms m 0, m\<lparr>randoms := (\<lambda>i. randoms m (Suc i))\<rparr>)"

text \<open>
  The rest of the \<^verbatim>\<open>catch\<close> block of \<^verbatim>\<open>_processEvent\<close> when another attempt follows:
  the retry counter, the delay, the span event and the timer.
\<close>

definition retry_wait :: "string \<Rightarrow> 'w Listener \<Rightarrow> Message \<Rightarrow> nat \<Rightarrow> 'w machine \<Rightarrow> 'w machine"
where
  "retry_wait nm l event attempt m =
     (let m1 = perform (CounterAdd ''eventbus_retry_attempts_total'' 1 (metricLabels nm event)) m;
          (u, m2) = (if sub_useJitter l then Math_random m1 else (0, m1));
          delayMs = calculateRetryDelay attempt (sub_baseDelay l) (sub_maxDelay l)
                      (sub_useJitter l) u;
          m3 = perform (SpanAddEvent ''retry''
                          [(''attempt'', JNum (real attempt)), (''delay_ms'', num_to_js delayMs)]) m2
      in perform (SetTimeout delayMs) m3)"

text \<open>
  The \<^verbatim>\<open>while\<close> loop of \<^verbatim>\<open>_processEvent\<close>, from the current value of \<^verbatim>\<open>attempt\<close>.
  \<open>Inl\<close> is the rejection with the exception of \<^verbatim>\<open>_handleFinalFailure\<close>.
\<close>

function processEvent_loop ::
  "string \<Rightarrow> 'w Listener \<Rightarrow> Message \<Rightarrow> nat \<Rightarrow> 'w machine \<Rightarrow> (js_error + unit) \<times> 'w machine"
where
  "processEvent_loop nm l event attempt m =
     (if attempt \<le> sub_maxRetries l then
        (case sub_handler l event (world m) of
           (None, w) \<Rightarrow>
             (Inr (),
              perform SpanEnd
                (recordDeliveryMetrics (metricLabels nm event) ''success''
                   (perform (HandlerCall event) m\<lparr>world := w\<rparr>)))
         | (Some error, w) \<Rightarrow>
             if Suc attempt > sub_maxRetries l then
               (case handleFinalFailure error event (metricLabels nm event)
                       (sub_maxRetries l) (sub_baseDelay l) (sub_maxDelay l)
                       (perform (HandlerCall event) m\<lparr>world := w\<rparr>) of
                  (exception, m') \<Rightarrow> (Inl exception, m'))
             else
               processEvent_loop nm l event (Suc attempt)
                 (retry_wait nm l event (Suc attempt)
                    (perform (HandlerCall event) m\<lparr>world := w\<rparr>)))
      else (Inr (), m))"
  by pat_completeness auto
termination
  by (relation "measure (\<lambda>(nm, l, event, attempt, m). Suc (sub_maxRetries l) - attempt)") auto

declare processEvent_loop.simps [simp del]

definition processEvent ::
  "string \<Rightarrow> 'w Listener \<Rightarrow> Message \<Rightarrow> 'w machine \<Rightarrow> (js_error + unit) \<times> 'w machine" where
  "processEvent nm l event m =
     processEvent_loop nm l event 0
       (perform (StartActiveSpan ''eventbus.handle'' CONSUMER
                   (span_attributes nm ''process'' event)) m)"

definition handleEvent :: "string \<Rightarrow> 'w Listener \<Rightarrow> Message \<Rightarrow> 'w machine \<Rightarrow> 'w machine" where
  "handleEvent nm l event m =
     (case processEvent nm l event m of
        (Inr u, m') \<Rightarrow> m'
      | (Inl error, m') \<Rightarrow>
          (case sub_onError l of
             Some onError \<Rightarrow>
               perform (OnErrorCall error event) m'\<lparr>world := onError error event (world m')\<rparr>
           | None \<Rightarrow> perform (LoggerCall ''error'' ''Nimbus'' (message error) (Some error)) m'))"

definition subscribeEvent ::
  "'w SubscribeEventInput \<Rightarrow> 'w NimbusEventBus \<Rightarrow> 'w machine
     \<Rightarrow> 'w NimbusEventBus \<times> 'w machine" where
  "subscribeEvent input bus m =
     (let m1 = perform (LoggerCall ''info'' ''Nimbus''
                          (''Subscribed to '' @ in_type input @ '' event'') None) m;
          handleEvent' =
            \<lparr>sub_handler = in_handler input,
             sub_onError = in_onError input,
             sub_maxRetries = option_or (Option.bind (in_options input) o_maxRetries)
                                (maxRetries bus),
             sub_baseDelay = option_or (Option.bind (in_options input) o_baseDelay)
                               (baseDelay bus),
             sub_maxDelay = option_or (Option.bind (in_options input) o_maxDelay)
                              (maxDelay bus),
             sub_useJitter = option_or (Option.bind (in_options input) o_useJitter)
                               (useJitter bus)\<rparr>
      in (bus\<lparr>eventEmitter := (eventEmitter bus)
                 (in_type input := eventEmitter bus (in_type input) @ [handleEvent'])\<rparr>,
          m1))"

text \<open>
  \<^verbatim>\<open>EventEmitter.emit\<close> calls the listeners of the type in the order they were added.
  A delivery is run to its end where it starts: how deliveries interleave at their
  \<^verbatim>\<open>await\<close> points is not part of the model, nor is what an emitter does with an
  event named \<^verbatim>\<open>error\<close> that nobody listens to.
\<close>

definition EventEmitter_emit ::
  "'w NimbusEventBus \<Rightarrow> string \<Rightarrow> Message \<Rightarrow> 'w machine \<Rightarrow> 'w machine" where
  "EventEmitter_emit bus t event m =
     fold (\<lambda>l m'. handleEvent (bus_name bus) l event m') (eventEmitter bus t) m"

text \<open>
  \<^verbatim>\<open>_validateEventSize\<close>. \<^verbatim>\<open>JSON.stringify\<close> is the parameter \<open>stringify\<close>; it yields
  the UTF-8 bytes of the JSON text, whose number \<^verbatim>\<open>TextEncoder().encode(...).length\<close>
  is.
\<close>

definition validateEventSize :: "(Message \<Rightarrow> string) \<Rightarrow> Message \<Rightarrow> js_error + nat" where
  "validateEventSize stringify event =
     (let eventJson = stringify event;
          size = length eventJson;
          maxSizeBytes = 64 * 1024
      in if size > maxSizeBytes then
           Inl (GenericException (Some ''Event size exceeds the limit of 64KB'')
                  (Some [(''eventType'', JStr (type event)),
                         (''eventSource'', JStr (source event)),
                         (''eventSizeBytes'', JNum (real size)),
                         (''maxSizeBytes'', JNum (real maxSizeBytes))]))
         else Inr size)"

definition putEvent ::
  "(Message \<Rightarrow> string) \<Rightarrow> 'w NimbusEventBus \<Rightarrow> Message \<Rightarrow> 'w machine
     \<Rightarrow> (js_error + unit) \<times> 'w machine" where
  "putEvent stringify bus event m =
     (case validateEventSize stringify event of
        Inl exception \<Rightarrow> (Inl exception, m)
      | Inr eventSize \<Rightarrow>
          (let m0 = perform (StartActiveSpan ''eventbus.publish'' PRODUCER
                               (span_attributes (bus_name bus) ''publish'' event)) m;
               m1 = perform (CounterAdd ''eventbus_events_published_total'' 1
                               (metricLabels (bus_name bus) event)) m0;
               m2 = perform (HistogramRecord ''eventbus_event_size_bytes'' (Some eventSize)
                               (metricLabels (bus_name bus) event)) m1;
               m3 = (case logPublish bus of None \<Rightarrow> m2
                     | Some f \<Rightarrow> m2\<lparr>world := f event (world m2)\<rparr>);
               m4 = EventEmitter_emit bus (type event) event m3
           in (Inr (), perform SpanEnd m4)))"

section \<open>Message factories\<close>

text \<open>
  \<^verbatim>\<open>ulid()\<close> is the parameter \<open>ulid\<close>, a generator on a state of its own, and \<open>now\<close>
  is what \<^verbatim>\<open>new Date().toISOString()\<close> returns. An omitted property is \<open>None\<close>.
\<close>

record CreateQueryInput =
  in_id :: "string option"
  in_correlationid :: "string option"
  in_time :: "string option"
  in_source :: string
  in_msg_type :: string
  in_data :: jsval
  in_datacontenttype :: "string option"
  in_dataschema :: "string option"

record CreateCommandInput = CreateQueryInput +
  in_subject :: "string option"

record CreateEventInput = CreateQueryInput +
  in_event_subject :: string

definition or_ulid :: "('u \<Rightarrow> string \<times> 'u) \<Rightarrow> string option \<Rightarrow> 'u \<Rightarrow> string \<times> 'u" where
  "or_ulid ulid v u = (case v of Some x \<Rightarrow> (x, u) | None \<Rightarrow> ulid u)"

text \<open>\<^verbatim>\<open>...(v && { v })\<close>: the property is there when the value is a non-empty string.\<close>

definition spread_if :: "string option \<Rightarrow> string option" where
  "spread_if v = (case v of Some x \<Rightarrow> if x \<noteq> [] then Some x else None | None \<Rightarrow> None)"

definition createCommand ::
  "('u \<Rightarrow> string \<times> 'u) \<Rightarrow> string \<Rightarrow> CreateCommandInput \<Rightarrow> 'u \<Rightarrow> Message \<times> 'u" where
  "createCommand ulid now input u =
     (let (id1, u1) = or_ulid ulid (in_id input) u;
          (id2, u2) = or_ulid ulid (in_correlationid input) u1
      in (\<lparr>specversion = ''1.0'',
           msg_id = id1,
           correlationid = id2,
           time = option_or (in_time input) now,
           source = in_source input,
           type = in_msg_type input,
           subject = spread_if (in_subject input),
           data = in_data input,
           datacontenttype = Some (option_or (in_datacontenttype input) ''application/json''),
           dataschema = spread_if (in_dataschema input)\<rparr>, u2))"

definition createQuery ::
  "('u \<Rightarrow> string \<times> 'u) \<Rightarrow> string \<Rightarrow> CreateQueryInput \<Rightarrow> 'u \<Rightarrow> Message \<times> 'u" where
  "createQuery ulid now input u =
     (let (id1, u1) = or_ulid ulid (in_id input) u;
          (id2, u2) = or_ulid ulid (in_correlationid input) u1
      in (\<lparr>specversion = ''1.0'',
           msg_id = id1,
           correlationid = id2,
           time = option_or (in_time input) now,
           source = in_source input,
           type = in_msg_type input,
           subject = None,
           data = in_data input,
           datacontenttype = Some (option_or (in_datacontenttype input) ''application/json''),
           dataschema = spread_if (in_dataschema input)\<rparr>, u2))"

definition createEvent ::
  "('u \<Rightarrow> string \<times> 'u) \<Rightarrow> string \<Rightarrow> CreateEventInput \<Rightarrow> 'u \<Rightarrow> Message \<times> 'u" where
  "createEvent ulid now input u =
     (let (id1, u1) = or_ulid ulid (in_id input) u;
          (id2, u2) = or_ulid ulid (in_correlationid input) u1
      in (\<lparr>specversion = ''1.0'',
           msg_id = id1,
           correlationid = id2,
           time = option_or (in_time input) now,
           source = in_source input,
           type = in_msg_type input,
           subject = Some (in_event_subject input),
           data = in_data input,
           datacontenttype = Some (option_or (in_datacontenttype input) ''application/json''),
           dataschema = spread_if (in_dataschema input)\<rparr>, u2))"


section \<open>Observations on a trace\<close>

fun is_HandlerCall :: "effect \<Rightarrow> bool" where
  "is_HandlerCall (HandlerCall event) = True"
| "is_HandlerCall e = False"

fun is_OnErrorCall :: "effect \<Rightarrow> bool" where
  "is_OnErrorCall (OnErrorCall error event) = True"
| "is_OnErrorCall e = False"

text \<open>
  The stack an exception of \<^verbatim>\<open>_handleFinalFailure\<close> ends with, for the value the
  handler threw.
\<close>

abbreviation failure_stack :: "js_thrown \<Rightarrow> js_stack option" where
  "failure_stack t \<equiv>
     (case t of
        ThrownError e \<Rightarrow>
          if stack_truthy (stack e) then stack e else Some (Captured ''INTERNAL_SERVER_ERROR'')
      | ThrownValue v \<Rightarrow> Some (Captured ''INTERNAL_SERVER_ERROR''))"

section \<open>Example routers, subscriptions and inputs\<close>

text \<open>
  Concrete values for the instances below. The machine starts with an empty trace and a
  world that counts handler invocations; no example prints a number.
\<close>

definition example_machine :: "nat machine" where
  "example_machine = \<lparr>world = 0, randoms = (\<lambda>i. 1 / 2), trace = []\<rparr>"

definition no_number :: "real \<Rightarrow> string" where
  "no_number n = []"

definition new_ZodError :: "jsval list \<Rightarrow> js_error" where
  "new_ZodError iss =
     \<lparr>cls = ZodError, name = ''ZodError'', message = ''Validation failed'',
      stack = Some (Captured ''ZodError''), details = None, statusCode = None,
      issues = Some iss\<rparr>"

text \<open>
  An object schema in Zod's default mode accepts an object and returns it without the
  keys the schema does not declare.
\<close>

definition strip_unknown :: "string list \<Rightarrow> ZodSchema" where
  "strip_unknown keys v =
     (case v of
        JObj kvs \<Rightarrow> Inr (JObj (filter (\<lambda>kv. fst kv \<in> set keys) kvs))
      | _ \<Rightarrow> Inl (new_ZodError
                 [JObj [(''code'', JStr ''invalid_type''), (''expected'', JStr ''object'')]]))"

definition number_issue :: jsval where
  "number_issue =
     JObj [(''code'', JStr ''invalid_type''), (''expected'', JStr ''number''),
           (''received'', JStr ''string''),
           (''path'', JArr [JStr ''data'', JStr ''aNumber'']),
           (''message'', JStr ''Expected number, received string'')]"

definition reject_all :: ZodSchema where
  "reject_all v = Inl (new_ZodError [number_issue])"

definition echo :: "nat MessageHandler" where
  "echo v w = (Inr v, Suc w)"

definition command_router :: "nat MessageRouter" where
  "command_router =
     fst (register ''test.command'' echo (strip_unknown [''type'', ''data''])
            (new_MessageRouter None) example_machine)"

definition command_input :: jsval where
  "command_input =
     JObj [(''type'', JStr ''test.command''),
           (''data'', JObj [(''aNumber'', JNum 1)]),
           (''traceparent'', JStr ''00-abc-def-01'')]"

definition accepting_empty_router :: "nat MessageRouter" where
  "accepting_empty_router =
     fst (register [] echo (strip_unknown [''type'', ''data''])
            (new_MessageRouter None) example_machine)"

definition rejecting_empty_router :: "nat MessageRouter" where
  "rejecting_empty_router =
     fst (register [] echo reject_all (new_MessageRouter None) example_machine)"

definition empty_type_input :: jsval where
  "empty_type_input = JObj [(''type'', JStr []), (''data'', JObj [])]"

definition rejecting_router :: "nat MessageRouter" where
  "rejecting_router =
     fst (register ''test.event'' echo reject_all (new_MessageRouter None) example_machine)"

definition event_input :: jsval where
  "event_input =
     JObj [(''specversion'', JStr ''1.0''), (''id'', JStr ''123''),
           (''source'', JStr ''https://nimbus.overlap.at/api/test''),
           (''type'', JStr ''test.event''),
           (''data'', JObj [(''testException'', JBool False), (''aNumber'', JStr ''123'')])]"

definition unknown_input :: jsval where
  "unknown_input =
     JObj [(''specversion'', JStr ''1.0''), (''id'', JStr ''123''),
           (''source'', JStr ''https://nimbus.overlap.at/api/test''),
           (''type'', JStr ''UNKNOWN_EVENT''),
           (''data'', JObj [(''payload'', JObj [(''aNumber'', JNum 1)])])]"

definition empty_router :: "nat MessageRouter" where
  "empty_router = new_MessageRouter None"

definition untyped_input :: jsval where
  "untyped_input = JObj [(''data'', JObj [(''aNumber'', JNum 1)])]"

definition example_event :: "string \<Rightarrow> jsval \<Rightarrow> Message" where
  "example_event t d =
     \<lparr>specversion = ''1.0'', msg_id = ''123'', correlationid = ''456'',
      time = ''2025-01-01T00:00:00Z'', source = ''https://nimbus.overlap.at'',
      type = t, subject = Some ''/test'', data = d,
      datacontenttype = None, dataschema = None\<rparr>"

definition always_fails :: "nat EventHandler" where
  "always_fails event w =
     (Some (ThrownError ((new_Error ''Always fails'')\<lparr>stack := Some (StackText ''Error: Always fails at handler'')\<rparr>)),
      Suc w)"

definition note_error :: "js_error \<Rightarrow> Message \<Rightarrow> nat \<Rightarrow> nat" where
  "note_error error event w = w + 100"

definition failing_bus :: "nat NimbusEventBus" where
  "failing_bus =
     fst (subscribeEvent
            \<lparr>in_type = ''test.event.retry-exhausted'', in_handler = always_fails,
             in_onError = Some note_error, in_options = None\<rparr>
            (new_NimbusEventBus
               (Some \<lparr>o_name = Some ''retry-exhausted-test'', o_maxRetries = Some 2,
                      o_baseDelay = Some (Finite 10), o_maxDelay = Some (Finite 100),
                      o_useJitter = Some False,
                      o_logPublish = None\<rparr>))
            example_machine)"

definition failing_listener :: "nat Listener" where
  "failing_listener = hd (eventEmitter failing_bus ''test.event.retry-exhausted'')"

definition small_event :: Message where
  "small_event = example_event ''test.event.retry-exhausted'' (JObj [(''testData'', JStr ''value'')])"

text \<open>A stand-in for \<^verbatim>\<open>JSON.stringify\<close>: the text of a string payload between quotes.\<close>

definition quoted_data :: "Message \<Rightarrow> string" where
  "quoted_data event =
     [CHR 0x22] @ (case data event of JStr s \<Rightarrow> s | _ \<Rightarrow> []) @ [CHR 0x22]"

definition big_event :: Message where
  "big_event =
     example_event ''test.event.retry-exhausted'' (JStr (replicate (65 * 1024) (CHR ''x'')))"

text \<open>A stand-in for \<^verbatim>\<open>ulid()\<close> that counts.\<close>

definition counting_ulid :: "nat \<Rightarrow> string \<times> nat" where
  "counting_ulid n = (''01ARZ3NDEKTSV4RRFFQ69G5F'' @ replicate n (CHR ''A''), Suc n)"

definition bare_query :: CreateQueryInput where
  "bare_query =
     \<lparr>in_id = None, in_correlationid = None, in_time = None,
      in_source = ''https://nimbus.overlap.at'', in_msg_type = ''at.overlap.nimbus.get-order'',
      in_data = JObj [], in_datacontenttype = None, in_dataschema = None\<rparr>"

definition bare_command :: CreateCommandInput where
  "bare_command =
     \<lparr>in_id = None, in_correlationid = None, in_time = None,
      in_source = ''https://nimbus.overlap.at'', in_msg_type = ''at.overlap.nimbus.create-order'',
      in_data = JObj [], in_datacontenttype = None, in_dataschema = None,
      in_subject = None\<rparr>"

definition bare_event :: CreateEventInput where
  "bare_event =
     \<lparr>in_id = None, in_correlationid = None, in_time = None,
      in_source = ''https://nimbus.overlap.at'', in_msg_type = ''at.overlap.nimbus.order-created'',
      in_data = JObj [], in_datacontenttype = None, in_dataschema = None,
      in_event_subject = ''/orders/42''\<rparr>"

section \<open>Facts about the machine\<close>

lemma world_perform [simp]: "world (perform e m) = world m"
  by (simp add: perform_def)

lemma trace_perform [simp]: "trace (perform e m) = trace m @ [e]"
  by (simp add: perform_def)

lemma world_run_hook:
  "world (run_hook h v m) = (case h of None \<Rightarrow> world m | Some f \<Rightarrow> f v (world m))"
  by (simp add: run_hook_def split: option.splits)

section \<open>Rounding\<close>

lemma rhe_floor: "\<lfloor>t\<rfloor> \<le> round_half_even t" "round_half_even t \<le> \<lfloor>t\<rfloor> + 1"
  by (simp_all add: round_half_even_def Let_def)

lemma rhe_ge: "of_int j \<le> t \<Longrightarrow> j \<le> round_half_even t"
proof -
  assume "of_int j \<le> t"
  then have "j \<le> \<lfloor>t\<rfloor>" by (simp add: le_floor_iff)
  then show ?thesis using rhe_floor(1)[of t] by linarith
qed

lemma rhe_le: "t \<le> of_int j \<Longrightarrow> round_half_even t \<le> j"
proof (cases "t = of_int \<lfloor>t\<rfloor>")
  case True
  assume "t \<le> of_int j"
  have "round_half_even t = \<lfloor>t\<rfloor>"
    using True by (simp add: round_half_even_def Let_def)
  moreover have "\<lfloor>t\<rfloor> \<le> j" using \<open>t \<le> of_int j\<close> by (simp add: floor_le_iff)
  ultimately show ?thesis by simp
next
  case False
  assume "t \<le> of_int j"
  have "of_int \<lfloor>t\<rfloor> < t" using False of_int_floor_le[of t] by linarith
  then have "of_int \<lfloor>t\<rfloor> < (of_int j :: real)" using \<open>t \<le> of_int j\<close> by linarith
  then have "\<lfloor>t\<rfloor> < j" by simp
  then show ?thesis using rhe_floor(2)[of t] by linarith
qed

lemma rhe_near: "\<bar>of_int (round_half_even t) - t\<bar> \<le> 1 / 2"
proof -
  have "of_int \<lfloor>t\<rfloor> \<le> t" "t < of_int \<lfloor>t\<rfloor> + 1" by linarith+
  then show ?thesis
    by (auto simp: round_half_even_def Let_def)
qed

lemma lg_bounds:
  assumes "0 < x"
  shows "2 powi \<lfloor>log 2 x\<rfloor> \<le> x" and "x < 2 powi (\<lfloor>log 2 x\<rfloor> + 1)"
proof -
  have "(\<lfloor>log 2 x\<rfloor> = \<lfloor>log 2 x\<rfloor>) =
       (2 powr real_of_int \<lfloor>log 2 x\<rfloor> \<le> x \<and> x < 2 powr real_of_int (\<lfloor>log 2 x\<rfloor> + 1))"
    by (rule floor_log_eq_powr_iff) (use assms in simp_all)
  then have b: "2 powr real_of_int \<lfloor>log 2 x\<rfloor> \<le> x" "x < 2 powr real_of_int (\<lfloor>log 2 x\<rfloor> + 1)"
    by simp_all
  have p: "(2::real) powr real_of_int k = 2 powi k" for k
    by (rule powr_real_of_int') simp_all
  show "2 powi \<lfloor>log 2 x\<rfloor> \<le> x" using b(1) unfolding p .
  show "x < 2 powi (\<lfloor>log 2 x\<rfloor> + 1)" using b(2) unfolding p .
qed

lemma pow2_mono: "a \<le> b \<Longrightarrow> (2::real) powi a \<le> 2 powi b"
  by (rule power_int_increasing) simp_all

lemma pow2_add: "(2::real) powi (a + b) = 2 powi a * 2 powi b"
  by (simp add: power_int_add)

lemma pow2_pos: "0 < (2::real) powi a"
  by simp


lemma quantum_pos: "0 < quantum x"
  by (simp add: quantum_def)

text \<open>Every double at or above x is a multiple of the spacing at x.\<close>

lemma above_is_multiple:
  assumes x: "0 < x" and le: "x \<le> real m * 2 powi e" and m: "m < 2 ^ 53" and e: "- 1074 \<le> e"
  shows "\<exists>j::int. real m * 2 powi e = of_int j * quantum x"
proof -
  let ?lg = "\<lfloor>log 2 x\<rfloor>"
  let ?e0 = "max (?lg - 52) (- 1074)"
  have ge: "?e0 \<le> e"
  proof (rule ccontr)
    assume "\<not> ?e0 \<le> e"
    then have lt: "e < ?lg - 52" using e by simp
    have "real m * 2 powi e < 2 ^ 53 * 2 powi e"
      using m by (intro mult_strict_right_mono) (simp_all add: of_nat_less_numeral_power_cancel_iff)
    also have "\<dots> = 2 powi (53 + e)" by (simp add: pow2_add)
    also have "\<dots> \<le> 2 powi ?lg" using lt by (intro pow2_mono) simp
    also have "\<dots> \<le> x" using lg_bounds(1)[OF x] .
    finally show False using le by simp
  qed
  have "2 powi e = (2::real) powi (e - ?e0) * 2 powi ?e0"
    by (simp add: pow2_add[symmetric])
  moreover have "(2::real) powi (e - ?e0) = of_int (2 ^ nat (e - ?e0))"
    using ge by (simp add: power_int_def)
  ultimately have "real m * 2 powi e = of_int (int m * 2 ^ nat (e - ?e0)) * quantum x"
    by (simp add: quantum_def)
  then show ?thesis by blast
qed

lemma round_magnitude_le:
  assumes x: "0 \<le> x" and le: "x \<le> real m * 2 powi e" and m: "m < 2 ^ 53" and e: "- 1074 \<le> e"
  shows "round_magnitude x \<le> real m * 2 powi e"
proof (cases "x = 0")
  case True
  then show ?thesis by (simp add: round_magnitude_def)
next
  case False
  then have xp: "0 < x" using x by simp
  obtain j :: int where j: "real m * 2 powi e = of_int j * quantum x"
    using above_is_multiple[OF xp le m e] by blast
  have "x / quantum x \<le> of_int j"
    using le j quantum_pos[of x] by (simp add: pos_divide_le_eq)
  then have "round_half_even (x / quantum x) \<le> j" by (rule rhe_le)
  then have "(of_int (round_half_even (x / quantum x)) :: real) \<le> of_int j" by simp
  then have "of_int (round_half_even (x / quantum x)) * quantum x \<le> of_int j * quantum x"
    using quantum_pos[of x] by (intro mult_right_mono) simp_all
  then show ?thesis using False j by (simp add: round_magnitude_def)
qed

lemma round_magnitude_ge:
  assumes le: "real m * 2 powi e \<le> x" and m: "m < 2 ^ 53" and e: "- 1074 \<le> e"
  shows "real m * 2 powi e \<le> round_magnitude x"
proof (cases "x = 0")
  case True
  then have "real m * 2 powi e \<le> 0" using le by simp
  moreover have "0 \<le> real m * 2 powi e" by simp
  ultimately show ?thesis using True by (simp add: round_magnitude_def)
next
  case False
  have "0 \<le> real m * 2 powi e" by simp
  then have xp: "0 < x" using le False by linarith
  let ?lg = "\<lfloor>log 2 x\<rfloor>"
  let ?e0 = "max (?lg - 52) (- 1074)"
  let ?k = "round_half_even (x / quantum x)"
  have rm: "round_magnitude x = of_int ?k * quantum x"
    using False by (simp add: round_magnitude_def)
  show ?thesis
  proof (cases "?e0 \<le> e")
    case True
    have "2 powi e = (2::real) powi (e - ?e0) * 2 powi ?e0"
      by (simp add: pow2_add[symmetric])
    moreover have "(2::real) powi (e - ?e0) = of_int (2 ^ nat (e - ?e0))"
      using True by (simp add: power_int_def)
    ultimately have "real m * 2 powi e = of_int (int m * 2 ^ nat (e - ?e0)) * quantum x"
      by (simp add: quantum_def)
    then obtain j :: int where j: "real m * 2 powi e = of_int j * quantum x" by blast
    have "of_int j \<le> x / quantum x"
      using le j quantum_pos[of x] by (simp add: pos_le_divide_eq)
    then have "j \<le> ?k" by (rule rhe_ge)
    then have "(of_int j :: real) \<le> of_int ?k" by simp
    then have "of_int j * quantum x \<le> of_int ?k * quantum x"
      using quantum_pos[of x] by (intro mult_right_mono) simp_all
    then show ?thesis using j rm by simp
  next
    case False
    then have lt: "e < ?lg - 52" using e by linarith
    then have "?e0 = ?lg - 52" using e by linarith
    then have q: "quantum x = 2 powi (?lg - 52)" by (simp only: quantum_def)
    have "real m * 2 powi e \<le> 2 ^ 53 * 2 powi e"
      using m by (intro mult_right_mono) simp_all
    also have "\<dots> = 2 powi (53 + e)" by (simp add: pow2_add)
    also have "\<dots> \<le> 2 powi ?lg" using lt by (intro pow2_mono) simp
    finally have a: "real m * 2 powi e \<le> 2 powi ?lg" .
    have "2 powi ?lg = (2::real) ^ 52 * 2 powi (?lg - 52)"
      using pow2_add[of 52 "?lg - 52"] by simp
    then have "of_int (2 ^ 52) * quantum x = 2 powi ?lg" using q by simp
    also have "\<dots> \<le> x" using lg_bounds(1)[OF xp] .
    finally have "of_int (2 ^ 52) \<le> x / quantum x"
      using quantum_pos[of x] by (simp add: pos_le_divide_eq)
    then have "2 ^ 52 \<le> ?k" by (rule rhe_ge)
    then have "(of_int (2 ^ 52) :: real) \<le> of_int ?k" by (simp only: of_int_le_iff)
    then have "of_int (2 ^ 52) * quantum x \<le> of_int ?k * quantum x"
      using quantum_pos[of x] by (intro mult_right_mono) simp_all
    then have "2 powi ?lg \<le> round_magnitude x"
      using rm \<open>of_int (2 ^ 52) * quantum x = 2 powi ?lg\<close> by simp
    then show ?thesis using a by linarith
  qed
qed

lemma round_magnitude_exact:
  assumes "m < 2 ^ 53" and "- 1074 \<le> e"
  shows "round_magnitude (real m * 2 powi e) = real m * 2 powi e"
  using round_magnitude_le[of "real m * 2 powi e" m e] round_magnitude_ge[of m e "real m * 2 powi e"]
    assms by simp

lemma round_magnitude_nat:
  assumes "k < 2 ^ 53"
  shows "round_magnitude (real k) = real k"
  using round_magnitude_exact[of k 0] assms by simp

text \<open>In the normal range the relative error of rounding is at most 2^-53.\<close>

lemma round_magnitude_rel:
  assumes x: "2 powi (- 1022) \<le> x"
  shows "round_magnitude x \<le> x * (1 + 1 / 2 ^ 53)"
proof -
  have xp: "0 < x" using x pow2_pos[of "- 1022"] by linarith
  let ?lg = "\<lfloor>log 2 x\<rfloor>"
  have "- 1022 \<le> ?lg"
  proof (rule ccontr)
    assume "\<not> - 1022 \<le> ?lg"
    then have "?lg + 1 \<le> - 1022" by linarith
    then have "(2::real) powi (?lg + 1) \<le> 2 powi (- 1022)" by (rule pow2_mono)
    then show False using lg_bounds(2)[OF xp] x by linarith
  qed
  then have "max (?lg - 52) (- 1074) = ?lg - 52" by linarith
  then have q: "quantum x = 2 powi (?lg - 52)" by (simp only: quantum_def)
  have "2 powi ?lg = (2::real) ^ 52 * 2 powi (?lg - 52)"
    using pow2_add[of 52 "?lg - 52"] by simp
  then have qx: "quantum x * 2 ^ 52 \<le> x" using q lg_bounds(1)[OF xp] by simp
  let ?k = "round_half_even (x / quantum x)"
  have "of_int ?k \<le> x / quantum x + 1 / 2" using rhe_near[of "x / quantum x"] by linarith
  then have "of_int ?k * quantum x \<le> (x / quantum x + 1 / 2) * quantum x"
    using quantum_pos[of x] by (intro mult_right_mono) simp_all
  also have "\<dots> = x + quantum x / 2" using quantum_pos[of x] by (simp add: field_simps)
  also have "\<dots> \<le> x + x / 2 ^ 53" using qx by (simp add: field_simps)
  finally show ?thesis using xp by (simp add: round_magnitude_def field_simps)
qed

lemma round_magnitude_nonneg: "0 \<le> x \<Longrightarrow> 0 \<le> round_magnitude x"
  using round_magnitude_ge[of 0 0 x] by simp

lemma round_magnitude_eval:
  assumes "2 powi lg \<le> x" and "x < 2 powi (lg + 1)" and "- 1022 \<le> lg"
  shows "round_magnitude x
           = of_int (round_half_even (x / 2 powi (lg - 52))) * 2 powi (lg - 52)"
proof -
  have xp: "0 < x" using assms(1) pow2_pos[of lg] by linarith
  have p: "(2::real) powr real_of_int k = 2 powi k" for k
    by (rule powr_real_of_int') simp_all
  have "\<lfloor>log 2 x\<rfloor> = lg"
    using floor_log_eq_powr_iff[of x 2 lg] xp assms(1,2) unfolding p by simp
  moreover have "max (lg - 52) (- 1074) = lg - 52" using assms(3) by linarith
  ultimately have "quantum x = 2 powi (lg - 52)" by (simp only: quantum_def)
  then show ?thesis using xp by (simp add: round_magnitude_def)
qed

lemma round64_nat: "k < 2 ^ 53 \<Longrightarrow> round64 (real k) = Finite (real k)"
proof -
  assume k: "k < 2 ^ 53"
  have "real k < 2 ^ 53" using k by (simp add: of_nat_less_numeral_power_cancel_iff)
  also have "\<dots> \<le> (2::real) ^ 1024" by (rule power_increasing) simp_all
  finally have "\<not> 2 ^ 1024 \<le> real k" by simp
  then show ?thesis using round_magnitude_nat[OF k] by (simp add: round64_def)
qed

lemma tenth: "round64 (1 / 10) = Finite (3602879701896397 / 2 ^ 55)"
proof -
  have "round_magnitude (1 / 10) = of_int (round_half_even ((1 / 10) / 2 powi (- 4 - 52))) * 2 powi (- 4 - 52)"
    by (rule round_magnitude_eval) (simp_all add: power_int_def power_divide)
  also have "\<dots> = 3602879701896397 / 2 ^ 55"
    by (simp add: power_int_def power_divide round_half_even_def Let_def)
  finally have "round_magnitude (1 / 10) = 3602879701896397 / 2 ^ 55" .
  then show ?thesis by (simp add: round64_def)
qed

lemma round64_zero: "round64 0 = Finite 0"
  by (simp add: round64_def round_magnitude_def)

lemma round64_eval:
  assumes "2 powi lg \<le> x" and "x < 2 powi (lg + 1)" and "- 1022 \<le> lg"
    and "of_int (round_half_even (x / 2 powi (lg - 52))) * 2 powi (lg - 52) = r"
    and "r < 2 ^ 1024"
  shows "round64 x = Finite r"
proof -
  have xp: "0 < x" using assms(1) pow2_pos[of lg] by linarith
  then have "\<bar>x\<bar> = x" by simp
  then show ?thesis
    using round_magnitude_eval[OF assms(1-3)] assms(4,5) xp by (simp add: round64_def Let_def)
qed

lemma round64_finite:
  assumes "0 \<le> x" and "round_magnitude x < 2 ^ 1024"
  shows "round64 x = Finite (round_magnitude x)"
  using assms by (simp add: round64_def Let_def)

lemma round64_overflow:
  assumes "0 \<le> x" and "2 ^ 1024 \<le> round_magnitude x"
  shows "round64 x = PosInf"
  using assms by (simp add: round64_def Let_def)

lemma delay_value:
  assumes n: "1 \<le> n" and b: "base < 2 ^ 53" and mx: "maxd < 2 ^ 53"
    and nz: "0 < base \<or> n \<le> 1024"
  shows "Math_min (fmul (Finite (real base)) (Math_pow2 (int n - 1))) (Finite (real maxd))
           = Finite (real (min (base * 2 ^ (n - 1)) maxd))"
proof -
  define a where "a = base * 2 ^ (n - 1)"
  have mxr: "real maxd < 2 ^ 1024"
  proof -
    have "real maxd < 2 ^ 53" using mx by (simp add: of_nat_less_numeral_power_cancel_iff)
    also have "\<dots> \<le> (2::real) ^ 1024" by (rule power_increasing) simp_all
    finally show ?thesis .
  qed
  have goal: "Math_min (fmul (Finite (real base)) (Math_pow2 (int n - 1))) (Finite (real maxd))
           = Finite (real (min a maxd))"
  proof (cases "1024 \<le> int n - 1")
    case True
    then have bp: "0 < base" using nz by linarith
    have big: "(2::nat) ^ 53 \<le> 2 ^ (n - 1)" using True by (intro power_increasing) simp_all
    have "maxd \<le> a"
    proof -
      have "maxd \<le> 2 ^ 53" using mx by simp
      also have "\<dots> \<le> 2 ^ (n - 1)" by (rule big)
      also have "\<dots> \<le> a" using bp by (simp add: a_def)
      finally show ?thesis .
    qed
    then have "min a maxd = maxd" by simp
    then show ?thesis using True bp by (simp add: Math_pow2_def)
  next
    case False
    then have k: "int n - 1 < 1024" by simp
    have pw: "Math_pow2 (int n - 1) = Finite (2 powi (int n - 1))"
      using k n by (simp add: Math_pow2_def)
    have pe: "(2::real) powi (int n - 1) = 2 ^ (n - 1)"
      using n by (simp add: power_int_def nat_diff_distrib')
    let ?x = "real base * 2 powi (int n - 1)"
    have ex: "round_magnitude ?x = ?x"
      by (rule round_magnitude_exact) (use b n in simp_all)
    have xn: "?x = real a" by (simp add: pe a_def)
    have x0: "0 \<le> ?x" by simp
    show ?thesis
    proof (cases "2 ^ 1024 \<le> ?x")
      case True
      then have "round64 ?x = PosInf"
        using round64_overflow[OF x0] ex by simp
      then have "fmul (Finite (real base)) (Math_pow2 (int n - 1)) = PosInf"
        by (simp only: pw fmul.simps)
      moreover have "real maxd \<le> real a" using True mxr xn by linarith
      then have "maxd \<le> a" by (simp only: of_nat_le_iff)
      then have "min a maxd = maxd" by simp
      ultimately show ?thesis by simp
    next
      case False
      then have "round64 ?x = Finite ?x"
        using round64_finite[OF x0] ex by simp
      then have "fmul (Finite (real base)) (Math_pow2 (int n - 1)) = Finite (real a)"
        by (simp only: pw fmul.simps xn)
      then show ?thesis by (simp add: min_def)
    qed
  qed
  show ?thesis using goal unfolding a_def .
qed

lemma jitter_arith:
  "(1 + 3602879701896397 / 2 ^ 55 * (1 + 1 / 2 ^ 53)) * (1 + 1 / 2 ^ 53)
     \<le> (11 / 10 :: real) * (1 + 1 / 2 ^ 52)"
  by simp

section \<open>Backoff delay\<close>

text \<open>
  C3, as stated, fails three ways. With policy (1000, 30000), attempt 1 and the draw
  \<open>1 - 2^-52\<close> the sleep is 1100, the upper end of the interval, which the claim
  excludes. With \<open>baseDelay = 0\<close> at attempt 1025 the power of two is infinite, the
  product is NaN and so is the sleep, with or without jitter. With \<open>baseDelay = 0\<close> at
  attempt 1 the sleep is 0, which is not in the empty interval \<open>[0, 1.1 * 0)\<close>.
\<close>

theorem C3_jitter_interval_counterexample:
  "(0::real) \<le> 1 - 1 / 2 ^ 52 \<and> (1 - 1 / 2 ^ 52 :: real) < 1
   \<and> calculateRetryDelay 1 (Finite 1000) (Finite 30000) True (1 - 1 / 2 ^ 52) = Finite 1100
   \<and> \<not> ((1100::real) < 1.1 * min (1000 * 2 ^ (1 - 1)) 30000)
   \<and> calculateRetryDelay 1025 (Finite 0) (Finite 30000) False (1 / 2) = NaN
   \<and> calculateRetryDelay 1 (Finite 0) (Finite 30000) True (1 / 2) = Finite 0
   \<and> \<not> ((0::real) < 1.1 * min (0 * 2 ^ (1 - 1)) 30000)"
proof -
  have p0: "Math_pow2 0 = Finite 1" by (simp add: Math_pow2_def)
  have r1000: "round64 1000 = Finite 1000" using round64_nat[of 1000] by simp
  have rj0: "round64 ((1 - 1 / 2 ^ 52) * 1000) = Finite (1000 - 1 / 2 ^ 42)"
    by (rule round64_eval[of 9]) (simp_all add: power_int_def power_divide round_half_even_def Let_def)
  have rj1: "round64 ((1000 - 1 / 2 ^ 42) * (3602879701896397 / 2 ^ 55)) = Finite (100 - 1 / 2 ^ 46)"
    by (rule round64_eval[of 6]) (simp_all add: power_int_def power_divide round_half_even_def Let_def)
  have rs: "round64 (1000 + (100 - 1 / 2 ^ 46)) = Finite 1100"
    by (rule round64_eval[of 10]) (simp_all add: power_int_def power_divide round_half_even_def Let_def)
  have d: "Math_min (fmul (Finite 1000) (Math_pow2 (int 1 - 1))) (Finite 30000) = Finite 1000"
    by (simp add: p0 r1000)
  have f1: "fmul (Finite (1 - 1 / 2 ^ 52)) (Finite 1000) = Finite (1000 - 1 / 2 ^ 42)"
    unfolding fmul.simps by (rule rj0)
  have f2: "fmul (Finite (1000 - 1 / 2 ^ 42)) (round64 (1 / 10)) = Finite (100 - 1 / 2 ^ 46)"
    unfolding tenth fmul.simps by (rule rj1)
  have f3: "fadd (Finite 1000) (Finite (100 - 1 / 2 ^ 46)) = Finite 1100"
    unfolding fadd.simps by (rule rs)
  have a: "calculateRetryDelay 1 (Finite 1000) (Finite 30000) True (1 - 1 / 2 ^ 52) = Finite 1100"
    by (simp only: calculateRetryDelay_def Let_def d if_True f1 f2 f3)
  have b: "calculateRetryDelay 1025 (Finite 0) (Finite 30000) False (1 / 2) = NaN"
    by (simp add: calculateRetryDelay_def Math_pow2_def)
  have c: "calculateRetryDelay 1 (Finite 0) (Finite 30000) True (1 / 2) = Finite 0"
    by (simp add: p0 calculateRetryDelay_def round64_zero tenth)
  show ?thesis using a b c by simp
qed

text \<open>
  C3, amended: let \<open>baseDelay\<close> and \<open>maxDelay\<close> be non-negative integers below \<open>2^53\<close>
  (the integers a number holds exactly), \<open>n \<ge> 1\<close>, and \<open>baseDelay > 0\<close> or
  \<open>n \<le> 1024\<close>; let \<open>d = min (baseDelay * 2^(n-1)) maxDelay\<close>. When \<open>useJitter\<close> is
  false the sleep is \<open>d\<close> exactly. When it is true and the draw is in \<open>[0, 1)\<close>, the
  sleep is a finite number in the closed interval from \<open>d\<close> to
  \<open>1.1 * d * (1 + 2^-52)\<close>, one rounding step above \<open>1.1 * d\<close>; so it is 0 when \<open>d\<close>
  is 0.
\<close>

theorem C3_retry_delay:
  assumes n: "1 \<le> n" and b: "base < 2 ^ 53" and mx: "maxd < 2 ^ 53"
    and nz: "0 < base \<or> n \<le> 1024" and u0: "0 \<le> u" and u1: "u < 1"
  shows "calculateRetryDelay n (Finite (real base)) (Finite (real maxd)) False u
           = Finite (real (min (base * 2 ^ (n - 1)) maxd))
       \<and> (\<exists>s. calculateRetryDelay n (Finite (real base)) (Finite (real maxd)) True u = Finite s
              \<and> real (min (base * 2 ^ (n - 1)) maxd) \<le> s
              \<and> s \<le> 1.1 * real (min (base * 2 ^ (n - 1)) maxd) * (1 + 1 / 2 ^ 52))"
proof -
  define d where "d = min (base * 2 ^ (n - 1)) maxd"
  define c :: real where "c = 3602879701896397 / 2 ^ 55"
  have dl: "d < 2 ^ 53" using mx by (simp add: d_def)
  have delay: "Math_min (fmul (Finite (real base)) (Math_pow2 (int n - 1))) (Finite (real maxd))
                 = Finite (real d)"
    unfolding d_def by (rule delay_value[OF n b mx nz])
  have plain: "calculateRetryDelay n (Finite (real base)) (Finite (real maxd)) False u
                 = Finite (real d)"
    using round64_nat[OF dl] by (simp add: calculateRetryDelay_def delay)
  have fin: "round64 x = Finite (round_magnitude x)" if "0 \<le> x" "round_magnitude x < 2 ^ 1024" for x
    using that by (simp add: round64_def Let_def)
  have small: "x < 2 ^ 1024" if "x \<le> 2 ^ 54" for x :: real
  proof -
    have "(2::real) ^ 54 < 2 ^ 1024" by (rule power_strict_increasing) simp_all
    then show ?thesis using that by linarith
  qed
  have dr: "real d < 2 ^ 53" using dl by (simp add: of_nat_less_numeral_power_cancel_iff)
  \<comment> \<open>Math.random() * delay\<close>
  define j0 where "j0 = round_magnitude (u * real d)"
  have ud: "0 \<le> u * real d" "u * real d \<le> real d"
    using u0 u1 by (simp_all add: mult_left_le_one_le)
  have j0u: "j0 \<le> real d"
    using round_magnitude_le[of "u * real d" d 0] ud dl by (simp add: j0_def)
  have j0l: "0 \<le> j0" using round_magnitude_nonneg[OF ud(1)] by (simp add: j0_def)
  have m0: "fmul (Finite u) (Finite (real d)) = Finite j0"
    using fin[OF ud(1)] j0u dr small[of j0] by (simp add: j0_def)
  \<comment> \<open>... * 0.1\<close>
  define j1 where "j1 = round_magnitude (j0 * c)"
  have cp: "0 < c" by (simp add: c_def)
  have z: "0 \<le> j0 * c" "j0 * c \<le> real d * c"
  proof -
    show "0 \<le> j0 * c" using j0l cp by simp
    show "j0 * c \<le> real d * c" by (rule mult_right_mono[OF j0u]) (use cp in simp)
  qed
  have j1l: "0 \<le> j1" using round_magnitude_nonneg[OF z(1)] by (simp add: j1_def)
  have j1u: "j1 \<le> real d * c * (1 + 1 / 2 ^ 53)"
  proof (cases "d = 0")
    case True
    then have "j0 = 0" using j0l j0u by simp
    then show ?thesis using True by (simp add: j1_def round_magnitude_def)
  next
    case False
    then have d1: "1 \<le> real d" by simp
    have tiny: "(2::real) powi (- 1022) \<le> c"
    proof -
      have "(2::real) powi (- 1022) \<le> 2 powi (- 4)" by (rule pow2_mono) simp
      also have "\<dots> \<le> c" by (simp add: c_def power_int_def power_divide)
      finally show ?thesis .
    qed
    have cd: "c \<le> real d * c" using d1 cp by simp
    show ?thesis
    proof (cases "2 powi (- 1022) \<le> j0 * c")
      case True
      have "j1 \<le> j0 * c * (1 + 1 / 2 ^ 53)"
        unfolding j1_def by (rule round_magnitude_rel[OF True])
      also have "\<dots> \<le> real d * c * (1 + 1 / 2 ^ 53)"
        by (rule mult_right_mono[OF z(2)]) simp
      finally show ?thesis .
    next
      case False
      have one: "real 1 * (2::real) powi (- 1022) = 2 powi (- 1022)"
        by (simp only: of_nat_1 mult_1)
      from False have "j0 * c \<le> 2 powi (- 1022)" by linarith
      then have le: "j0 * c \<le> real 1 * 2 powi (- 1022)" by (simp only: one)
      have "round_magnitude (j0 * c) \<le> real 1 * 2 powi (- 1022)"
        by (rule round_magnitude_le[OF z(1) le]) simp_all
      then have "j1 \<le> 2 powi (- 1022)" by (simp only: one j1_def)
      also have "\<dots> \<le> c" by (rule tiny)
      also have "\<dots> \<le> real d * c" by (rule cd)
      also have "\<dots> = real d * c * 1" by simp
      also have "\<dots> \<le> real d * c * (1 + 1 / 2 ^ 53)"
        by (rule mult_left_mono) (use cp in simp_all)
      finally show ?thesis .
    qed
  qed
  have cl: "c * (1 + 1 / 2 ^ 53) \<le> 1" by (simp add: c_def)
  have j1d: "j1 \<le> real d"
  proof -
    have "real d * (c * (1 + 1 / 2 ^ 53)) \<le> real d * 1"
      using cl by (intro mult_left_mono) simp_all
    then show ?thesis using j1u by (simp add: mult.assoc)
  qed
  have m1: "fmul (Finite j0) (round64 (1 / 10)) = Finite j1"
    using fin[OF z(1)] j1d dr small[of j1] by (simp add: tenth j1_def c_def)
  \<comment> \<open>delay + jitter\<close>
  define s where "s = round_magnitude (real d + j1)"
  have x0: "0 \<le> real d + j1" using j1l by simp
  have sl: "real d \<le> s"
    using round_magnitude_ge[of d 0 "real d + j1"] dl j1l by (simp add: s_def)
  have su: "s \<le> 1.1 * real d * (1 + 1 / 2 ^ 52)"
  proof (cases "d = 0")
    case True
    then have "j1 = 0" using j1l j1d by simp
    then show ?thesis using True by (simp add: s_def round_magnitude_def)
  next
    case False
    then have d1: "1 \<le> real d" by simp
    have "(2::real) powi (- 1022) \<le> 2 powi 0" by (rule pow2_mono) simp
    then have "2 powi (- 1022) \<le> real d + j1" using d1 j1l by simp
    then have "s \<le> (real d + j1) * (1 + 1 / 2 ^ 53)"
      unfolding s_def by (rule round_magnitude_rel)
    also have "\<dots> \<le> (real d + real d * c * (1 + 1 / 2 ^ 53)) * (1 + 1 / 2 ^ 53)"
      using j1u by (intro mult_right_mono) simp_all
    also have "\<dots> = real d * ((1 + c * (1 + 1 / 2 ^ 53)) * (1 + 1 / 2 ^ 53))"
      by (simp add: algebra_simps)
    also have "\<dots> \<le> real d * (11 / 10 * (1 + 1 / 2 ^ 52))"
      using jitter_arith unfolding c_def by (intro mult_left_mono) simp_all
    finally show ?thesis by (simp add: mult.assoc mult.commute)
  qed
  have sfin: "s < 2 ^ 1024"
  proof -
    have "(11 / 10 :: real) * (1 + 1 / 2 ^ 52) \<le> 2" by simp
    then have "real d * (11 / 10 * (1 + 1 / 2 ^ 52)) \<le> real d * 2"
      by (intro mult_left_mono) simp_all
    then have "s \<le> real d * 2" using su by (simp add: mult.assoc mult.commute)
    then have "s \<le> 2 ^ 54" using dr by simp
    then show ?thesis by (rule small)
  qed
  have a1: "fadd (Finite (real d)) (Finite j1) = Finite s"
    using fin[OF x0] sfin by (simp add: s_def)
  have jit: "calculateRetryDelay n (Finite (real base)) (Finite (real maxd)) True u = Finite s"
    by (simp only: calculateRetryDelay_def Let_def delay if_True m0 m1 a1)
  show ?thesis
    using plain jit sl su unfolding d_def by blast
qed

theorem C3_retry_delay_witness:
  "(1::nat) \<le> 2 \<and> (10::nat) < 2 ^ 53 \<and> (100::nat) < 2 ^ 53 \<and> (0::nat) < 10
   \<and> (0::real) \<le> 1 / 2 \<and> (1 / 2 :: real) < 1
   \<and> calculateRetryDelay 2 (Finite 10) (Finite 100) False (1 / 2) = Finite 20
   \<and> (\<exists>s. calculateRetryDelay 2 (Finite 10) (Finite 100) True (1 / 2) = Finite s
          \<and> 20 \<le> s \<and> s \<le> 22 * (1 + 1 / 2 ^ 52))"
proof -
  have h: "(1::nat) \<le> 2" "(10::nat) < 2 ^ 53" "(100::nat) < 2 ^ 53"
          "(0::nat) < 10 \<or> (2::nat) \<le> 1024" "(0::real) \<le> 1 / 2" "(1 / 2 :: real) < 1"
    by simp_all
  have m: "min ((10::nat) * 2 ^ (2 - 1)) 100 = 20" by simp
  show ?thesis
    using C3_retry_delay [OF h] unfolding m by simp
qed

section \<open>Routing\<close>

lemma opt_prop_JStr: "opt_prop x k = JStr T \<Longrightarrow> get_prop x k = JStr T"
  by (cases x) simp_all

lemma fst_route:
  "fst (route nts r x m) =
     fst (route_try nts r x
            (perform (StartActiveSpan ''router.route'' INTERNAL
               ([(''messaging.system'', JStr ''nimbusRouter''),
                 (''messaging.router_name'', JStr (router_name r)),
                 (''messaging.operation'', JStr ''route''),
                 (''messaging.destination'', nullish (opt_prop x ''type'') (JStr ''unknown''))]
                @ (if js_truthy (opt_prop x ''correlationid'')
                   then [(''correlation_id'', get_prop x ''correlationid'')] else []))) m))"
  by (simp add: route_def Let_def split: prod.splits sum.splits)

lemma handlers_register:
  "handlers (fst (register T h s r m)) T = Some \<lparr>handler = h, schema = s\<rparr>"
  by (simp add: register_def)

text \<open>
  C1, as stated, fails twice. A schema hands the handler the data it returns, not the
  input: the object schema registered for \<open>test.command\<close> accepts \<open>command_input\<close>
  and returns it without the key \<open>traceparent\<close>, so the handler \<open>echo\<close>, which
  answers with what it receives, answers differently on the input itself. And a handler
  registered under the empty type is never reached.
\<close>

theorem C1_handler_receives_input_counterexample:
  "handlers command_router ''test.command''
      = Some \<lparr>handler = echo, schema = strip_unknown [''type'', ''data'']\<rparr>
   \<and> opt_prop command_input ''type'' = JStr ''test.command''
   \<and> strip_unknown [''type'', ''data''] command_input
      = Inr (JObj [(''type'', JStr ''test.command''), (''data'', JObj [(''aNumber'', JNum 1)])])
   \<and> fst (route no_number command_router command_input example_machine)
      \<noteq> fst (echo command_input (world example_machine))
   \<and> handlers accepting_empty_router []
      = Some \<lparr>handler = echo, schema = strip_unknown [''type'', ''data'']\<rparr>
   \<and> opt_prop empty_type_input ''type'' = JStr []
   \<and> strip_unknown [''type'', ''data''] empty_type_input = Inr empty_type_input
   \<and> fst (route no_number accepting_empty_router empty_type_input example_machine)
      \<noteq> fst (echo empty_type_input (world example_machine))"
  by (simp add: command_router_def handlers_register command_input_def strip_unknown_def
        fst_route route_try_def Map_get_def echo_def example_machine_def world_run_hook
        new_MessageRouter_def register_def accepting_empty_router_def empty_type_input_def)

text \<open>
  C1, amended: for a handler registered under a non-empty type \<open>T\<close> with a schema, and
  an input \<open>x\<close> whose \<open>type\<close> is \<open>T\<close> and which the schema accepts with data \<open>v\<close>,
  \<^verbatim>\<open>route(x)\<close> settles as the handler does on \<open>v\<close>, in the world \<^verbatim>\<open>logInput\<close> leaves.
\<close>

theorem C1_route_valid:
  assumes "handlers r T = Some reg" and "opt_prop x ''type'' = JStr T" and "T \<noteq> []"
    and "schema reg x = Inr v"
  shows "fst (route nts r x m) =
           fst (handler reg v (case logInput r of None \<Rightarrow> world m | Some f \<Rightarrow> f x (world m)))"
  using assms opt_prop_JStr[OF assms(2)]
  by (simp add: fst_route route_try_def Let_def Map_get_def world_run_hook
           split: prod.splits sum.splits option.splits)

theorem C1_route_valid_witness:
  "handlers command_router ''test.command''
      = Some \<lparr>handler = echo, schema = strip_unknown [''type'', ''data'']\<rparr>
   \<and> opt_prop command_input ''type'' = JStr ''test.command''
   \<and> ''test.command'' \<noteq> []
   \<and> strip_unknown [''type'', ''data''] command_input
      = Inr (JObj [(''type'', JStr ''test.command''), (''data'', JObj [(''aNumber'', JNum 1)])])
   \<and> fst (route no_number command_router command_input example_machine)
      = Inr (JObj [(''type'', JStr ''test.command''), (''data'', JObj [(''aNumber'', JNum 1)])])"
proof -
  have h1: "handlers command_router ''test.command''
      = Some \<lparr>handler = echo, schema = strip_unknown [''type'', ''data'']\<rparr>"
    by (simp add: command_router_def handlers_register)
  have h2: "opt_prop command_input ''type'' = JStr ''test.command''"
    by (simp add: command_input_def)
  have h3: "''test.command'' \<noteq> []" by simp
  have h4: "schema \<lparr>handler = echo, schema = strip_unknown [''type'', ''data'']\<rparr> command_input
      = Inr (JObj [(''type'', JStr ''test.command''), (''data'', JObj [(''aNumber'', JNum 1)])])"
    by (simp add: command_input_def strip_unknown_def)
  have lg: "logInput command_router = None"
    by (simp add: command_router_def register_def new_MessageRouter_def)
  show ?thesis
    using C1_route_valid [OF h1 h2 h3 h4, of no_number example_machine] h1 h2 h4
    by (simp add: lg echo_def)
qed

text \<open>
  C5, as stated, fails for a schema registered under the empty type: the input whose
  \<open>type\<close> is the empty string is rejected before the registry is read, with the
  message of a missing type and no issue list.
\<close>

theorem C5_invalid_input_counterexample:
  "handlers rejecting_empty_router [] = Some \<lparr>handler = echo, schema = reject_all\<rparr>
   \<and> opt_prop empty_type_input ''type'' = JStr []
   \<and> reject_all empty_type_input = Inl (new_ZodError [number_issue])
   \<and> issues (new_ZodError [number_issue]) = Some [number_issue]
   \<and> fst (route no_number rejecting_empty_router empty_type_input example_machine)
      = Inl (ThrownError
          (InvalidInputException (Some ''The provided input has no type attribute'') None))
   \<and> message (InvalidInputException (Some ''The provided input has no type attribute'') None)
      \<noteq> ''The provided input is invalid''
   \<and> details (InvalidInputException (Some ''The provided input has no type attribute'') None)
      \<noteq> Some [(''issues'', JArr [number_issue])]"
  by (simp add: rejecting_empty_router_def handlers_register empty_type_input_def reject_all_def
        new_ZodError_def fst_route route_try_def InvalidInputException_def Exception_def)

text \<open>
  C5, amended: for a non-empty type \<open>T\<close> registered with a schema, and an input \<open>x\<close>
  whose \<open>type\<close> is \<open>T\<close> and which the schema fails with the issue list \<open>iss\<close>,
  \<^verbatim>\<open>route(x)\<close> rejects with an InvalidInput exception (status 400) whose message is
  "The provided input is invalid" and whose \<open>details.issues\<close> is \<open>iss\<close>.
\<close>

theorem C5_route_invalid:
  assumes "handlers r T = Some reg" and "opt_prop x ''type'' = JStr T" and "T \<noteq> []"
    and "schema reg x = Inl z" and "issues z = Some iss"
  shows "\<exists>e. fst (route nts r x m) = Inl (ThrownError e)
     \<and> cls e = InvalidInputExceptionC \<and> name e = ''INVALID_INPUT'' \<and> statusCode e = Some 400
     \<and> message e = ''The provided input is invalid''
     \<and> details e = Some [(''issues'', JArr iss)]"
  using assms opt_prop_JStr[OF assms(2)]
  by (simp add: fst_route route_try_def Let_def InvalidInputException_def Exception_def
        Map_get_def fromZodError_def)

theorem C5_route_invalid_witness:
  "handlers rejecting_router ''test.event'' = Some \<lparr>handler = echo, schema = reject_all\<rparr>
   \<and> opt_prop event_input ''type'' = JStr ''test.event''
   \<and> ''test.event'' \<noteq> []
   \<and> reject_all event_input = Inl (new_ZodError [number_issue])
   \<and> issues (new_ZodError [number_issue]) = Some [number_issue]
   \<and> (\<exists>e. fst (route no_number rejecting_router event_input example_machine)
             = Inl (ThrownError e)
          \<and> cls e = InvalidInputExceptionC \<and> name e = ''INVALID_INPUT''
          \<and> statusCode e = Some 400
          \<and> message e = ''The provided input is invalid''
          \<and> details e = Some [(''issues'', JArr [number_issue])])"
proof -
  have h1: "handlers rejecting_router ''test.event'' = Some \<lparr>handler = echo, schema = reject_all\<rparr>"
    by (simp add: rejecting_router_def handlers_register)
  have h2: "opt_prop event_input ''type'' = JStr ''test.event''"
    by (simp add: event_input_def)
  have h3: "''test.event'' \<noteq> []" by simp
  have h4: "schema \<lparr>handler = echo, schema = reject_all\<rparr> event_input
              = Inl (new_ZodError [number_issue])"
    by (simp add: reject_all_def)
  have h5: "issues (new_ZodError [number_issue]) = Some [number_issue]"
    by (simp add: new_ZodError_def)
  show ?thesis
    using C5_route_invalid [OF h1 h2 h3 h4 h5, of no_number example_machine] h1 h2 h4 h5
    by simp
qed

text \<open>
  C6: an input whose \<open>type\<close> is a non-empty string with no registration is rejected
  with a NotFound exception (status 404), message "Message handler not found", whose
  \<open>details.reason\<close> names the type.
\<close>

theorem C6_route_not_found:
  assumes "opt_prop x ''type'' = JStr T" and "T \<noteq> []" and "handlers r T = None"
  shows "fst (route nts r x m) =
     Inl (ThrownError \<lparr>cls = NotFoundExceptionC, name = ''NOT_FOUND'',
            message = ''Message handler not found'',
            stack = Some (Captured ''NOT_FOUND''),
            details = Some [(''reason'',
               JStr (''Could not find a handler for message type: '' @ [CHR 0x22] @ T
                     @ [CHR 0x22]))],
            statusCode = Some 404, issues = None\<rparr>)"
  using assms opt_prop_JStr[OF assms(1)]
  by (simp add: fst_route route_try_def Let_def NotFoundException_def Exception_def Map_get_def)

theorem C6_route_not_found_witness:
  "opt_prop unknown_input ''type'' = JStr ''UNKNOWN_EVENT''
   \<and> ''UNKNOWN_EVENT'' \<noteq> []
   \<and> handlers command_router ''UNKNOWN_EVENT'' = None
   \<and> fst (route no_number command_router unknown_input example_machine) =
     Inl (ThrownError \<lparr>cls = NotFoundExceptionC, name = ''NOT_FOUND'',
            message = ''Message handler not found'',
            stack = Some (Captured ''NOT_FOUND''),
            details = Some [(''reason'',
               JStr (''Could not find a handler for message type: '' @ [CHR 0x22]
                     @ ''UNKNOWN_EVENT'' @ [CHR 0x22]))],
            statusCode = Some 404, issues = None\<rparr>)"
proof -
  have h1: "opt_prop unknown_input ''type'' = JStr ''UNKNOWN_EVENT''"
    by (simp add: unknown_input_def)
  have h2: "''UNKNOWN_EVENT'' \<noteq> []" by simp
  have h3: "handlers command_router ''UNKNOWN_EVENT'' = None"
    by (simp add: command_router_def register_def new_MessageRouter_def)
  show ?thesis
    using C6_route_not_found [OF h1 h2 h3, of no_number example_machine] h1 h3 by simp
qed

text \<open>
  C7, as stated, fails on \<^verbatim>\<open>MessageRouter\<close>: a router with no registration rejects an
  input of type "UNKNOWN_EVENT" with a NotFound exception whose message is
  "Message handler not found", not "Route handler not found".
\<close>

theorem C7_message_router_counterexample:
  "dom (handlers empty_router) = {}
   \<and> opt_prop unknown_input ''type'' = JStr ''UNKNOWN_EVENT''
   \<and> fst (route no_number empty_router unknown_input example_machine) =
     Inl (ThrownError \<lparr>cls = NotFoundExceptionC, name = ''NOT_FOUND'',
            message = ''Message handler not found'',
            stack = Some (Captured ''NOT_FOUND''),
            details = Some [(''reason'',
               JStr (''Could not find a handler for message type: '' @ [CHR 0x22]
                     @ ''UNKNOWN_EVENT'' @ [CHR 0x22]))],
            statusCode = Some 404, issues = None\<rparr>)
   \<and> ''Message handler not found'' \<noteq> ''Route handler not found''"
  by (simp add: empty_router_def new_MessageRouter_def unknown_input_def fst_route
        route_try_def Let_def NotFoundException_def Exception_def Map_get_def)

text \<open>
  C7, amended: the router function \<^verbatim>\<open>createRouter\<close> builds from an empty handler map
  fails on an input of type "UNKNOWN_EVENT" with a NotFound exception (status 404)
  whose message is "Route handler not found" and whose \<open>details.reason\<close> names the type.
\<close>

theorem C7_createRouter_unknown:
  assumes "get_prop x ''type'' = JStr ''UNKNOWN_EVENT''"
  shows "fst (createRouter nts Map.empty inputLogFunc x m) =
     Inl (ThrownError \<lparr>cls = NotFoundExceptionC, name = ''NOT_FOUND'',
            message = ''Route handler not found'',
            stack = Some (Captured ''NOT_FOUND''),
            details = Some [(''reason'',
               JStr (''Could not find a handler for '' @ [CHR 0x22] @ ''UNKNOWN_EVENT''
                     @ [CHR 0x22]))],
            statusCode = Some 404, issues = None\<rparr>)"
proof -
  have nn: "x \<noteq> JUndefined \<and> x \<noteq> JNull" using assms by (cases x) simp_all
  have ab: "object_lookup Map.empty ''UNKNOWN_EVENT'' = (Absent :: 'a RouteHandlerEntry lookup)"
    by (simp add: object_lookup_def Object_prototype_keys_def)
  show ?thesis
    using nn assms ab
    by (simp add: createRouter_def Let_def NotFoundException_def Exception_def)
qed

theorem C7_createRouter_unknown_witness:
  "get_prop unknown_input ''type'' = JStr ''UNKNOWN_EVENT''
   \<and> fst (createRouter no_number Map.empty None unknown_input example_machine) =
     Inl (ThrownError \<lparr>cls = NotFoundExceptionC, name = ''NOT_FOUND'',
            message = ''Route handler not found'',
            stack = Some (Captured ''NOT_FOUND''),
            details = Some [(''reason'',
               JStr (''Could not find a handler for '' @ [CHR 0x22] @ ''UNKNOWN_EVENT''
                     @ [CHR 0x22]))],
            statusCode = Some 404, issues = None\<rparr>)"
proof -
  have h: "get_prop unknown_input ''type'' = JStr ''UNKNOWN_EVENT''"
    by (simp add: unknown_input_def)
  show ?thesis
    using C7_createRouter_unknown [OF h, of no_number None example_machine] h by simp
qed

text \<open>
  C8: an input with no \<open>type\<close> attribute (also null and undefined) is rejected with an
  InvalidInput exception whose message is "The provided input has no type attribute".
\<close>

theorem C8_route_missing_type:
  assumes "opt_prop x ''type'' = JUndefined"
  shows "fst (route nts r x m) =
     Inl (ThrownError \<lparr>cls = InvalidInputExceptionC, name = ''INVALID_INPUT'',
            message = ''The provided input has no type attribute'',
            stack = Some (Captured ''INVALID_INPUT''), details = None,
            statusCode = Some 400, issues = None\<rparr>)"
  using assms
  by (simp add: fst_route route_try_def Let_def InvalidInputException_def Exception_def)

theorem C8_route_missing_type_witness:
  "opt_prop untyped_input ''type'' = JUndefined
   \<and> fst (route no_number command_router untyped_input example_machine) =
     Inl (ThrownError \<lparr>cls = InvalidInputExceptionC, name = ''INVALID_INPUT'',
            message = ''The provided input has no type attribute'',
            stack = Some (Captured ''INVALID_INPUT''), details = None,
            statusCode = Some 400, issues = None\<rparr>)"
proof -
  have h: "opt_prop untyped_input ''type'' = JUndefined"
    by (simp add: untyped_input_def)
  show ?thesis
    using C8_route_missing_type [OF h, of no_number command_router example_machine] h by simp
qed

text \<open>
  C10: an input whose \<open>type\<close> is the empty string is rejected with the same InvalidInput
  exception as a missing type, whatever the registry holds; the instance has a handler
  registered under the empty key whose schema accepts the input.
\<close>

theorem C10_route_empty_type:
  assumes "opt_prop x ''type'' = JStr []"
  shows "fst (route nts r x m) =
     Inl (ThrownError \<lparr>cls = InvalidInputExceptionC, name = ''INVALID_INPUT'',
            message = ''The provided input has no type attribute'',
            stack = Some (Captured ''INVALID_INPUT''), details = None,
            statusCode = Some 400, issues = None\<rparr>)"
  using assms
  by (simp add: fst_route route_try_def Let_def InvalidInputException_def Exception_def)

theorem C10_route_empty_type_witness:
  "opt_prop empty_type_input ''type'' = JStr []
   \<and> handlers accepting_empty_router []
      = Some \<lparr>handler = echo, schema = strip_unknown [''type'', ''data'']\<rparr>
   \<and> fst (route no_number accepting_empty_router empty_type_input example_machine) =
     Inl (ThrownError \<lparr>cls = InvalidInputExceptionC, name = ''INVALID_INPUT'',
            message = ''The provided input has no type attribute'',
            stack = Some (Captured ''INVALID_INPUT''), details = None,
            statusCode = Some 400, issues = None\<rparr>)"
proof -
  have h: "opt_prop empty_type_input ''type'' = JStr []"
    by (simp add: empty_type_input_def)
  have r: "handlers accepting_empty_router []
      = Some \<lparr>handler = echo, schema = strip_unknown [''type'', ''data'']\<rparr>"
    by (simp add: accepting_empty_router_def handlers_register)
  show ?thesis
    using C10_route_empty_type [OF h, of no_number accepting_empty_router example_machine] h r
    by simp
qed

section \<open>Publishing\<close>

text \<open>
  C4: an event whose serialization is longer than 65536 bytes makes \<^verbatim>\<open>putEvent\<close> throw
  the Generic exception "Event size exceeds the limit of 64KB" with the four details,
  and leaves the machine as it was: no handler runs and nothing is traced.
\<close>

theorem C4_oversize_event:
  assumes "65536 < length (stringify event)"
  shows "putEvent stringify bus event m =
     (Inl \<lparr>cls = GenericExceptionC, name = ''INTERNAL_SERVER_ERROR'',
           message = ''Event size exceeds the limit of 64KB'',
           stack = Some (Captured ''INTERNAL_SERVER_ERROR''),
           details = Some [(''eventType'', JStr (type event)),
                           (''eventSource'', JStr (source event)),
                           (''eventSizeBytes'', JNum (real (length (stringify event)))),
                           (''maxSizeBytes'', JNum 65536)],
           statusCode = Some 500, issues = None\<rparr>, m)
   \<and> filter is_HandlerCall (trace (snd (putEvent stringify bus event m)))
       = filter is_HandlerCall (trace m)
   \<and> world (snd (putEvent stringify bus event m)) = world m"
  using assms
  by (simp add: putEvent_def validateEventSize_def Let_def GenericException_def Exception_def)

theorem C4_oversize_event_witness:
  "65536 < length (quoted_data big_event)
   \<and> length (eventEmitter failing_bus (type big_event)) = 1
   \<and> putEvent quoted_data failing_bus big_event example_machine =
     (Inl \<lparr>cls = GenericExceptionC, name = ''INTERNAL_SERVER_ERROR'',
           message = ''Event size exceeds the limit of 64KB'',
           stack = Some (Captured ''INTERNAL_SERVER_ERROR''),
           details = Some [(''eventType'', JStr ''test.event.retry-exhausted''),
                           (''eventSource'', JStr ''https://nimbus.overlap.at''),
                           (''eventSizeBytes'', JNum 66562),
                           (''maxSizeBytes'', JNum 65536)],
           statusCode = Some 500, issues = None\<rparr>, example_machine)
   \<and> filter is_HandlerCall (trace (snd (putEvent quoted_data failing_bus big_event example_machine))) = []"
proof -
  have h: "65536 < length (quoted_data big_event)"
    by (simp add: quoted_data_def big_event_def example_event_def)
  have l: "length (quoted_data big_event) = 66562"
    by (simp add: quoted_data_def big_event_def example_event_def)
  have s: "length (eventEmitter failing_bus (type big_event)) = 1"
    by (simp add: failing_bus_def subscribeEvent_def Let_def new_NimbusEventBus_def
          big_event_def example_event_def)
  have f: "type big_event = ''test.event.retry-exhausted''"
          "source big_event = ''https://nimbus.overlap.at''"
    by (simp_all add: big_event_def example_event_def)
  have t: "trace example_machine = []" by (simp add: example_machine_def)
  show ?thesis
    using C4_oversize_event [of quoted_data big_event failing_bus example_machine] h s
    by (simp add: l f t)
qed

section \<open>Retry exhaustion\<close>

lemma trace_recordDeliveryMetrics:
  "trace (recordDeliveryMetrics labels status m) = trace m @
     [CounterAdd ''eventbus_events_delivered_total'' 1 (labels @ [(''status'', JStr status)]),
      HistogramRecord ''eventbus_event_handling_duration_seconds'' None labels]"
  by (simp add: recordDeliveryMetrics_def)

lemma world_recordDeliveryMetrics [simp]:
  "world (recordDeliveryMetrics labels status m) = world m"
  by (simp add: recordDeliveryMetrics_def)

lemma retry_wait_facts:
  "world (retry_wait nm l ev a m) = world m \<and>
   (\<exists>new. trace (retry_wait nm l ev a m) = trace m @ new \<and> filter is_HandlerCall new = []
      \<and> filter is_OnErrorCall new = [])"
  by (simp add: retry_wait_def Let_def Math_random_def split: prod.splits)

lemma handleFinalFailure_facts:
  "world (snd (handleFinalFailure t ev labels r b d m)) = world m \<and>
   (\<exists>new. trace (snd (handleFinalFailure t ev labels r b d m)) = trace m @ new
       \<and> filter is_HandlerCall new = [] \<and> filter is_OnErrorCall new = []) \<and>
   fst (handleFinalFailure t ev labels r b d m) =
      (GenericException
         (Some (''Failed to handle event: '' @ type ev @ '' from '' @ source ev))
         (Some [(''maxRetries'', JNum (real r)), (''baseDelay'', num_to_js b),
                (''maxDelay'', num_to_js d)]))\<lparr>stack := failure_stack t\<rparr>"
  by (simp add: handleFinalFailure_def Let_def trace_recordDeliveryMetrics GenericException_def
        Exception_def split: js_thrown.splits)

lemma final_exception_fields:
  assumes "exc = (GenericException (Some msg) dets)\<lparr>stack := st\<rparr>"
  shows "cls exc = GenericExceptionC" and "name exc = ''INTERNAL_SERVER_ERROR''"
    and "statusCode exc = Some 500" and "message exc = msg" and "stack exc = st"
    and "details exc = dets" and "issues exc = None"
  using assms by (simp_all add: GenericException_def Exception_def)

lemma loop_always_throws:
  assumes A: "\<forall>w. fst (sub_handler l ev w) \<noteq> None"
  shows "k = sub_maxRetries l - attempt \<Longrightarrow> attempt \<le> sub_maxRetries l \<Longrightarrow>
    \<exists>exc m' new t. processEvent_loop nm l ev attempt m = (Inl exc, m')
      \<and> trace m' = trace m @ new
      \<and> length (filter is_HandlerCall new) = Suc (sub_maxRetries l) - attempt
      \<and> filter is_OnErrorCall new = []
      \<and> world m' = ((\<lambda>w. snd (sub_handler l ev w)) ^^ (Suc (sub_maxRetries l) - attempt)) (world m)
      \<and> fst (sub_handler l ev (((\<lambda>w. snd (sub_handler l ev w)) ^^ (sub_maxRetries l - attempt)) (world m))) = Some t
      \<and> exc = (GenericException
                  (Some (''Failed to handle event: '' @ type ev @ '' from '' @ source ev))
                  (Some [(''maxRetries'', JNum (real (sub_maxRetries l))),
                         (''baseDelay'', num_to_js (sub_baseDelay l)),
                         (''maxDelay'', num_to_js (sub_maxDelay l))]))\<lparr>stack := failure_stack t\<rparr>"
proof (induction k arbitrary: attempt m)
  case 0
  then have eq: "attempt = sub_maxRetries l" by simp
  obtain t w where h: "sub_handler l ev (world m) = (Some t, w)"
    using A by (metis option.exhaust prod.collapse)
  let ?m1 = "(perform (HandlerCall ev) m)\<lparr>world := w\<rparr>"
  let ?R = "handleFinalFailure t ev (metricLabels nm ev) (sub_maxRetries l) (sub_baseDelay l) (sub_maxDelay l) ?m1"
  have run: "processEvent_loop nm l ev attempt m = (Inl (fst ?R), snd ?R)"
    by (subst processEvent_loop.simps) (simp add: eq h split: prod.splits)
  from handleFinalFailure_facts[of t ev "metricLabels nm ev" "sub_maxRetries l" "sub_baseDelay l" "sub_maxDelay l" ?m1]
  obtain new where f: "world (snd ?R) = w" "trace (snd ?R) = trace m @ [HandlerCall ev] @ new"
     "filter is_HandlerCall new = []" "filter is_OnErrorCall new = []"
     "fst ?R = (GenericException
                  (Some (''Failed to handle event: '' @ type ev @ '' from '' @ source ev))
                  (Some [(''maxRetries'', JNum (real (sub_maxRetries l))),
                         (''baseDelay'', num_to_js (sub_baseDelay l)),
                         (''maxDelay'', num_to_js (sub_maxDelay l))]))\<lparr>stack := failure_stack t\<rparr>"
    by auto
  have g1: "length (filter is_HandlerCall ([HandlerCall ev] @ new)) = Suc (sub_maxRetries l) - attempt"
    using f(3) by (simp add: eq)
  have g2: "filter is_OnErrorCall ([HandlerCall ev] @ new) = []" using f(4) by simp
  have g3: "world (snd ?R) = ((\<lambda>w. snd (sub_handler l ev w)) ^^ (Suc (sub_maxRetries l) - attempt)) (world m)"
    using f(1) h by (simp add: eq)
  have g4: "fst (sub_handler l ev (((\<lambda>w. snd (sub_handler l ev w)) ^^ (sub_maxRetries l - attempt)) (world m))) = Some t"
    using h by (simp add: eq)
  show ?case
    using run f(2) g1 g2 g3 g4 f(5) by blast
next
  case (Suc k)
  then have lt: "attempt < sub_maxRetries l" and k: "k = sub_maxRetries l - Suc attempt" by simp_all
  obtain t w where h: "sub_handler l ev (world m) = (Some t, w)"
    using A by (metis option.exhaust prod.collapse)
  let ?m1 = "(perform (HandlerCall ev) m)\<lparr>world := w\<rparr>"
  let ?m2 = "retry_wait nm l ev (Suc attempt) ?m1"
  have run: "processEvent_loop nm l ev attempt m = processEvent_loop nm l ev (Suc attempt) ?m2"
    using lt by (subst processEvent_loop.simps) (simp add: h)
  from retry_wait_facts[of nm l ev "Suc attempt" ?m1]
  obtain new1 where r: "world ?m2 = w" "trace ?m2 = trace m @ [HandlerCall ev] @ new1"
    "filter is_HandlerCall new1 = []" "filter is_OnErrorCall new1 = []"
    by auto
  have le: "Suc attempt \<le> sub_maxRetries l" using lt by simp
  from Suc.IH[OF k le, of ?m2]
  obtain exc m' new t' where ih: "processEvent_loop nm l ev (Suc attempt) ?m2 = (Inl exc, m')"
      "trace m' = trace ?m2 @ new"
      "length (filter is_HandlerCall new) = Suc (sub_maxRetries l) - Suc attempt"
      "filter is_OnErrorCall new = []"
      "world m' = ((\<lambda>w. snd (sub_handler l ev w)) ^^ (Suc (sub_maxRetries l) - Suc attempt)) (world ?m2)"
      "fst (sub_handler l ev (((\<lambda>w. snd (sub_handler l ev w)) ^^ (sub_maxRetries l - Suc attempt)) (world ?m2))) = Some t'"
      "exc = (GenericException
                  (Some (''Failed to handle event: '' @ type ev @ '' from '' @ source ev))
                  (Some [(''maxRetries'', JNum (real (sub_maxRetries l))),
                         (''baseDelay'', num_to_js (sub_baseDelay l)),
                         (''maxDelay'', num_to_js (sub_maxDelay l))]))\<lparr>stack := failure_stack t'\<rparr>"
    by blast
  let ?step = "\<lambda>w. snd (sub_handler l ev w)"
  have w: "w = ?step (world m)" using h by simp
  have p1: "Suc (sub_maxRetries l) - attempt = Suc (Suc (sub_maxRetries l) - Suc attempt)"
    using lt by simp
  have p2: "sub_maxRetries l - attempt = Suc (sub_maxRetries l - Suc attempt)"
    using lt by simp
  have c1: "processEvent_loop nm l ev attempt m = (Inl exc, m')"
    using run ih(1) by simp
  have c2: "trace m' = trace m @ ([HandlerCall ev] @ new1 @ new)"
    using ih(2) r(2) by simp
  have c3: "length (filter is_HandlerCall ([HandlerCall ev] @ new1 @ new))
              = Suc (sub_maxRetries l) - attempt"
    using ih(3) r(3) p1 by simp
  have c4: "filter is_OnErrorCall ([HandlerCall ev] @ new1 @ new) = []"
    using ih(4) r(4) by simp
  have sw: "(?step ^^ n) (?step x) = ?step ((?step ^^ n) x)" for n x
    using funpow_swap1[of ?step n x] by simp
  have c5: "world m' = (?step ^^ (Suc (sub_maxRetries l) - attempt)) (world m)"
    unfolding p1 using ih(5) r(1) w sw by simp
  have c6: "fst (sub_handler l ev ((?step ^^ (sub_maxRetries l - attempt)) (world m))) = Some t'"
    unfolding p2 using ih(6) r(1) w sw by simp
  show ?case
    using c1 c2 c3 c4 c5 c6 ih(7) by blast
qed

lemma failing_listener_eq:
  "failing_listener =
     \<lparr>sub_handler = always_fails, sub_onError = Some note_error, sub_maxRetries = 2,
      sub_baseDelay = Finite 10, sub_maxDelay = Finite 100, sub_useJitter = False\<rparr>"
  by (simp add: failing_listener_def failing_bus_def subscribeEvent_def Let_def
        new_NimbusEventBus_def option_or_def)

text \<open>
  C2: when the handler of a subscription throws on every invocation, one delivery
  invokes it \<open>maxRetries + 1\<close> times, each on the world the invocation before left.
  Then \<^verbatim>\<open>onError\<close>, when there is one, is called once, as the last effect, on that
  world and with the event and the Generic exception \<open>exc\<close>: its message is
  "Failed to handle event: <type> from <source>", its details are the retry
  configuration, and its stack is the stack of the error of the last invocation when
  that error has one. Without \<^verbatim>\<open>onError\<close> no callback runs.
\<close>

theorem C2_retry_exhaustion:
  assumes "\<forall>w. fst (sub_handler l ev w) \<noteq> None"
  shows "\<exists>new t exc.
      trace (handleEvent nm l ev m) = trace m @ new
    \<and> length (filter is_HandlerCall new) = sub_maxRetries l + 1
    \<and> fst (sub_handler l ev
         (((\<lambda>w. snd (sub_handler l ev w)) ^^ sub_maxRetries l) (world m))) = Some t
    \<and> exc = (GenericException
               (Some (''Failed to handle event: '' @ type ev @ '' from '' @ source ev))
               (Some [(''maxRetries'', JNum (real (sub_maxRetries l))),
                      (''baseDelay'', num_to_js (sub_baseDelay l)),
                      (''maxDelay'', num_to_js (sub_maxDelay l))]))\<lparr>stack := failure_stack t\<rparr>
    \<and> cls exc = GenericExceptionC \<and> name exc = ''INTERNAL_SERVER_ERROR''
    \<and> statusCode exc = Some 500
    \<and> message exc = ''Failed to handle event: '' @ type ev @ '' from '' @ source ev
    \<and> stack exc = (case t of
         ThrownError e \<Rightarrow>
           if stack_truthy (stack e) then stack e else Some (Captured ''INTERNAL_SERVER_ERROR'')
       | ThrownValue v \<Rightarrow> Some (Captured ''INTERNAL_SERVER_ERROR''))
    \<and> (case sub_onError l of
          Some onError \<Rightarrow>
            filter is_OnErrorCall new = [OnErrorCall exc ev] \<and> last new = OnErrorCall exc ev
            \<and> world (handleEvent nm l ev m)
                = onError exc ev
                    (((\<lambda>w. snd (sub_handler l ev w)) ^^ (sub_maxRetries l + 1)) (world m))
        | None \<Rightarrow>
            filter is_OnErrorCall new = []
            \<and> world (handleEvent nm l ev m)
                = ((\<lambda>w. snd (sub_handler l ev w)) ^^ (sub_maxRetries l + 1)) (world m))"
proof -
  let ?span = "StartActiveSpan ''eventbus.handle'' CONSUMER (span_attributes nm ''process'' ev)"
  let ?m0 = "perform ?span m"
  have le0: "0 \<le> sub_maxRetries l" by simp
  from loop_always_throws[OF assms refl le0, of nm ?m0]
  obtain exc m' new t where L: "processEvent_loop nm l ev 0 ?m0 = (Inl exc, m')"
      "trace m' = trace ?m0 @ new"
      "length (filter is_HandlerCall new) = Suc (sub_maxRetries l) - 0"
      "filter is_OnErrorCall new = []"
      "world m' = ((\<lambda>w. snd (sub_handler l ev w)) ^^ (Suc (sub_maxRetries l) - 0)) (world ?m0)"
      "fst (sub_handler l ev (((\<lambda>w. snd (sub_handler l ev w)) ^^ (sub_maxRetries l - 0)) (world ?m0))) = Some t"
      "exc = (GenericException
                  (Some (''Failed to handle event: '' @ type ev @ '' from '' @ source ev))
                  (Some [(''maxRetries'', JNum (real (sub_maxRetries l))),
                         (''baseDelay'', num_to_js (sub_baseDelay l)),
                         (''maxDelay'', num_to_js (sub_maxDelay l))]))\<lparr>stack := failure_stack t\<rparr>"
    by blast
  note F = final_exception_fields[OF L(7)]
  have wm: "world m' = ((\<lambda>w. snd (sub_handler l ev w)) ^^ (sub_maxRetries l + 1)) (world m)"
    using L(5) by simp
  have cnt: "length (filter is_HandlerCall new) = sub_maxRetries l + 1" using L(3) by simp
  have thr: "fst (sub_handler l ev
         (((\<lambda>w. snd (sub_handler l ev w)) ^^ sub_maxRetries l) (world m))) = Some t"
    using L(6) by simp
  show ?thesis
  proof (cases "sub_onError l")
    case None
    let ?new = "[?span] @ new @ [LoggerCall ''error'' ''Nimbus'' (message exc) (Some exc)]"
    have tr: "trace (handleEvent nm l ev m) = trace m @ ?new"
      using L(1,2) None by (simp add: handleEvent_def processEvent_def)
    have wd: "world (handleEvent nm l ev m)
                = ((\<lambda>w. snd (sub_handler l ev w)) ^^ (sub_maxRetries l + 1)) (world m)"
      using L(1) None wm by (simp add: handleEvent_def processEvent_def)
    have c1: "length (filter is_HandlerCall ?new) = sub_maxRetries l + 1" using cnt by simp
    have c2: "filter is_OnErrorCall ?new = []" using L(4) by simp
    show ?thesis
      apply (rule exI[of _ ?new], rule exI[of _ t], rule exI[of _ exc])
      using tr c1 thr L(7) F(1-5) c2 wd None by simp
  next
    case (Some f)
    let ?new = "[?span] @ new @ [OnErrorCall exc ev]"
    have tr: "trace (handleEvent nm l ev m) = trace m @ ?new"
      using L(1,2) Some by (simp add: handleEvent_def processEvent_def)
    have wd: "world (handleEvent nm l ev m)
                = f exc ev (((\<lambda>w. snd (sub_handler l ev w)) ^^ (sub_maxRetries l + 1)) (world m))"
      using L(1) Some wm by (simp add: handleEvent_def processEvent_def)
    have c1: "length (filter is_HandlerCall ?new) = sub_maxRetries l + 1" using cnt by simp
    have c2: "filter is_OnErrorCall ?new = [OnErrorCall exc ev]" using L(4) by simp
    have c3: "last ?new = OnErrorCall exc ev" by simp
    show ?thesis
      apply (rule exI[of _ ?new], rule exI[of _ t], rule exI[of _ exc])
      using tr c1 thr L(7) F(1-5) c2 c3 wd Some by simp
  qed
qed

theorem C2_retry_exhaustion_witness:
  "(\<forall>w. fst (sub_handler failing_listener small_event w) \<noteq> None)
   \<and> sub_maxRetries failing_listener = 2
   \<and> sub_onError failing_listener = Some note_error
   \<and> length (filter is_HandlerCall
        (trace (handleEvent ''retry-exhausted-test'' failing_listener small_event
                  example_machine))) = 3
   \<and> length (filter is_OnErrorCall
        (trace (handleEvent ''retry-exhausted-test'' failing_listener small_event
                  example_machine))) = 1
   \<and> last (trace (handleEvent ''retry-exhausted-test'' failing_listener small_event
                  example_machine))
      = OnErrorCall
          \<lparr>cls = GenericExceptionC, name = ''INTERNAL_SERVER_ERROR'',
           message = ''Failed to handle event: test.event.retry-exhausted from https://nimbus.overlap.at'',
           stack = Some (StackText ''Error: Always fails at handler''),
           details = Some [(''maxRetries'', JNum 2), (''baseDelay'', JNum 10),
                           (''maxDelay'', JNum 100)],
           statusCode = Some 500, issues = None\<rparr>
          small_event
   \<and> world (handleEvent ''retry-exhausted-test'' failing_listener small_event example_machine)
      = 103"
proof -
  have h: "\<forall>w. fst (sub_handler failing_listener small_event w) \<noteq> None"
    by (simp add: failing_listener_eq always_fails_def)
  have r: "sub_maxRetries failing_listener = 2" "sub_onError failing_listener = Some note_error"
          "sub_baseDelay failing_listener = Finite 10" "sub_maxDelay failing_listener = Finite 100"
    by (simp_all add: failing_listener_eq)
  have t0: "trace example_machine = []" "world example_machine = 0"
    by (simp_all add: example_machine_def)
  have ev: "type small_event = ''test.event.retry-exhausted''"
           "source small_event = ''https://nimbus.overlap.at''"
    by (simp_all add: small_event_def example_event_def)
  have thrown: "fst (sub_handler failing_listener small_event w) = Some t \<Longrightarrow>
      t = ThrownError ((new_Error ''Always fails'')\<lparr>stack := Some (StackText ''Error: Always fails at handler'')\<rparr>)"
    for w t by (simp add: failing_listener_eq always_fails_def)
  have steps: "((\<lambda>w. snd (sub_handler failing_listener small_event w)) ^^ (2 + 1)) 0 = 3"
    by (simp add: failing_listener_eq always_fails_def numeral_3_eq_3)
  from C2_retry_exhaustion [OF h, of "''retry-exhausted-test''" example_machine]
  obtain new t exc where c:
      "trace (handleEvent ''retry-exhausted-test'' failing_listener small_event example_machine) = new"
      "length (filter is_HandlerCall new) = 3"
      "fst (sub_handler failing_listener small_event
         (((\<lambda>w. snd (sub_handler failing_listener small_event w)) ^^ 2) 0)) = Some t"
      "exc = (GenericException
               (Some (''Failed to handle event: '' @ type small_event @ '' from '' @ source small_event))
               (Some [(''maxRetries'', JNum (real (2::nat))),
                      (''baseDelay'', num_to_js (Finite 10)),
                      (''maxDelay'', num_to_js (Finite 100))]))\<lparr>stack := failure_stack t\<rparr>"
      "filter is_OnErrorCall new = [OnErrorCall exc small_event]"
      "last new = OnErrorCall exc small_event"
      "world (handleEvent ''retry-exhausted-test'' failing_listener small_event example_machine)
         = note_error exc small_event
             (((\<lambda>w. snd (sub_handler failing_listener small_event w)) ^^ (2 + 1)) 0)"
    unfolding r t0 by auto
  have e: "exc = \<lparr>cls = GenericExceptionC, name = ''INTERNAL_SERVER_ERROR'',
           message = ''Failed to handle event: test.event.retry-exhausted from https://nimbus.overlap.at'',
           stack = Some (StackText ''Error: Always fails at handler''),
           details = Some [(''maxRetries'', JNum 2), (''baseDelay'', JNum 10),
                           (''maxDelay'', JNum 100)],
           statusCode = Some 500, issues = None\<rparr>"
    unfolding c(4) thrown[OF c(3)]
    by (simp add: GenericException_def Exception_def new_Error_def num_to_js_def ev)
  have wd: "world (handleEvent ''retry-exhausted-test'' failing_listener small_event example_machine) = 103"
    unfolding c(7) steps by (simp add: note_error_def)
  have one: "length (filter is_OnErrorCall new) = 1" using c(5) by simp
  show ?thesis
    using h r(1,2) c(2) one c(6) wd unfolding c(1) e by simp
qed

section \<open>Factory defaults\<close>

text \<open>
  C9: on an input without \<open>id\<close>, \<open>correlationid\<close>, \<open>time\<close> and \<open>datacontenttype\<close>,
  each of \<^verbatim>\<open>createCommand\<close>, \<^verbatim>\<open>createQuery\<close> and \<^verbatim>\<open>createEvent\<close> returns a message
  whose \<open>id\<close> and \<open>correlationid\<close> are the next two generated ULIDs, whose \<open>time\<close> is
  the current timestamp, whose \<open>datacontenttype\<close> is "application/json" and whose
  \<open>specversion\<close> is "1.0".
\<close>

theorem C9_factory_defaults:
  assumes "in_id c = None" and "in_correlationid c = None" and "in_time c = None"
    and "in_datacontenttype c = None"
    and "in_id q = None" and "in_correlationid q = None" and "in_time q = None"
    and "in_datacontenttype q = None"
    and "in_id e = None" and "in_correlationid e = None" and "in_time e = None"
    and "in_datacontenttype e = None"
  shows "specversion (fst (createCommand ulid now c u)) = ''1.0''
       \<and> msg_id (fst (createCommand ulid now c u)) = fst (ulid u)
       \<and> correlationid (fst (createCommand ulid now c u)) = fst (ulid (snd (ulid u)))
       \<and> time (fst (createCommand ulid now c u)) = now
       \<and> datacontenttype (fst (createCommand ulid now c u)) = Some ''application/json''
       \<and> specversion (fst (createQuery ulid now q u)) = ''1.0''
       \<and> msg_id (fst (createQuery ulid now q u)) = fst (ulid u)
       \<and> correlationid (fst (createQuery ulid now q u)) = fst (ulid (snd (ulid u)))
       \<and> time (fst (createQuery ulid now q u)) = now
       \<and> datacontenttype (fst (createQuery ulid now q u)) = Some ''application/json''
       \<and> specversion (fst (createEvent ulid now e u)) = ''1.0''
       \<and> msg_id (fst (createEvent ulid now e u)) = fst (ulid u)
       \<and> correlationid (fst (createEvent ulid now e u)) = fst (ulid (snd (ulid u)))
       \<and> time (fst (createEvent ulid now e u)) = now
       \<and> datacontenttype (fst (createEvent ulid now e u)) = Some ''application/json''"
  using assms
  by (simp add: createCommand_def createQuery_def createEvent_def or_ulid_def option_or_def
        Let_def split: prod.splits)

theorem C9_factory_defaults_witness:
  "in_id bare_command = None \<and> in_correlationid bare_command = None
   \<and> in_time bare_command = None \<and> in_datacontenttype bare_command = None
   \<and> in_id bare_query = None \<and> in_correlationid bare_query = None
   \<and> in_time bare_query = None \<and> in_datacontenttype bare_query = None
   \<and> in_id bare_event = None \<and> in_correlationid bare_event = None
   \<and> in_time bare_event = None \<and> in_datacontenttype bare_event = None
   \<and> fst (createCommand counting_ulid ''2025-01-01T00:00:00.000Z'' bare_command 0) =
       \<lparr>specversion = ''1.0'', msg_id = ''01ARZ3NDEKTSV4RRFFQ69G5F'',
        correlationid = ''01ARZ3NDEKTSV4RRFFQ69G5FA'', time = ''2025-01-01T00:00:00.000Z'',
        source = ''https://nimbus.overlap.at'', type = ''at.overlap.nimbus.create-order'',
        subject = None, data = JObj [], datacontenttype = Some ''application/json'',
        dataschema = None\<rparr>
   \<and> msg_id (fst (createQuery counting_ulid ''2025-01-01T00:00:00.000Z'' bare_query 0))
       = ''01ARZ3NDEKTSV4RRFFQ69G5F''
   \<and> datacontenttype (fst (createEvent counting_ulid ''2025-01-01T00:00:00.000Z'' bare_event 0))
       = Some ''application/json''"
proof -
  have c: "in_id bare_command = None" "in_correlationid bare_command = None"
          "in_time bare_command = None" "in_datacontenttype bare_command = None"
    by (simp_all add: bare_command_def)
  have q: "in_id bare_query = None" "in_correlationid bare_query = None"
          "in_time bare_query = None" "in_datacontenttype bare_query = None"
    by (simp_all add: bare_query_def)
  have e: "in_id bare_event = None" "in_correlationid bare_event = None"
          "in_time bare_event = None" "in_datacontenttype bare_event = None"
    by (simp_all add: bare_event_def)
  have rest: "source (fst (createCommand counting_ulid ''2025-01-01T00:00:00.000Z'' bare_command 0))
                = ''https://nimbus.overlap.at''
      \<and> type (fst (createCommand counting_ulid ''2025-01-01T00:00:00.000Z'' bare_command 0))
                = ''at.overlap.nimbus.create-order''
      \<and> subject (fst (createCommand counting_ulid ''2025-01-01T00:00:00.000Z'' bare_command 0)) = None
      \<and> data (fst (createCommand counting_ulid ''2025-01-01T00:00:00.000Z'' bare_command 0)) = JObj []
      \<and> dataschema (fst (createCommand counting_ulid ''2025-01-01T00:00:00.000Z'' bare_command 0)) = None"
    by (simp add: createCommand_def bare_command_def or_ulid_def spread_if_def Let_def
          split: prod.splits)
  have u: "fst (counting_ulid 0) = ''01ARZ3NDEKTSV4RRFFQ69G5F''"
          "fst (counting_ulid (snd (counting_ulid 0))) = ''01ARZ3NDEKTSV4RRFFQ69G5FA''"
    by (simp_all add: counting_ulid_def)
  have eqI: "m = \<lparr>specversion = a1, msg_id = a2, correlationid = a3, time = a4, source = a5,
                  type = a6, subject = a7, data = a8, datacontenttype = a9, dataschema = a10\<rparr>"
    if "specversion m = a1" "msg_id m = a2" "correlationid m = a3" "time m = a4" "source m = a5"
       "type m = a6" "subject m = a7" "data m = a8" "datacontenttype m = a9" "dataschema m = a10"
    for m :: Message and a1 a2 a3 a4 a5 a6 a7 a8 a9 a10
    using that by (cases m) simp
  note T = C9_factory_defaults [OF c q e, of counting_ulid "''2025-01-01T00:00:00.000Z''" 0]
  show ?thesis
    using T rest c q e u by (auto intro!: eqI)
qed

end
